theory Spec2Isabelle
  imports Complex_Main "HOL-Library.AList"
begin

section \<open>Exceptions, \<^verbatim>\<open>try\<close>/\<^verbatim>\<open>catch\<close> and JavaScript defaults\<close>

text \<open>
  A JavaScript function that may throw returns \<open>error + 'a\<close>, with \<open>Inl\<close> for the thrown
  value. \<open>ClassifierUnavailable\<close> stands for every way the OpenAI call of an analyzer can
  fail inside its \<^verbatim>\<open>try\<close> block: the request rejects, the reply has no content, or
  \<^verbatim>\<open>JSON.parse\<close> rejects the reply.
\<close>

datatype error =
    ClassifierUnavailable
  | TypeError
  | NotFound
  | WriteFailed

definition try_catch :: "error + 'a \<Rightarrow> (error \<Rightarrow> error + 'a) \<Rightarrow> error + 'a" where
  "try_catch body handler = (case body of Inl e \<Rightarrow> handler e | Inr v \<Rightarrow> Inr v)"

definition bindE :: "error + 'a \<Rightarrow> ('a \<Rightarrow> error + 'b) \<Rightarrow> error + 'b" where
  "bindE m f = (case m of Inl e \<Rightarrow> Inl e | Inr v \<Rightarrow> f v)"

text \<open>\<^verbatim>\<open>x || d\<close> on a number, a string and a boolean field that may be absent.\<close>

definition num_or :: "real option \<Rightarrow> real \<Rightarrow> real" where
  "num_or x d = (case x of None \<Rightarrow> d | Some v \<Rightarrow> if v = 0 then d else v)"

definition str_or :: "string option \<Rightarrow> string \<Rightarrow> string" where
  "str_or x d = (case x of None \<Rightarrow> d | Some s \<Rightarrow> if s = [] then d else s)"

definition bool_or_false :: "bool option \<Rightarrow> bool" where
  "bool_or_false x = (case x of None \<Rightarrow> False | Some b \<Rightarrow> b)"

section \<open>The classification service (aiService.js)\<close>

text \<open>
  The parsed JSON replies of the three comparison prompts. Every field may be absent
  from the reply.
\<close>

record text_json =
  tj_score :: "real option"
  tj_reasoning :: "string option"
  problem_match :: "bool option"
  severity_match :: "bool option"
  infrastructure_match :: "bool option"

record image_json =
  ij_score :: "real option"
  ij_reasoning :: "string option"
  same_location :: "bool option"
  same_problem :: "bool option"
  visual_match :: "bool option"

record type_json =
  cj_score :: "real option"
  same_type :: "bool option"
  new_type :: "string option"
  existing_type :: "string option"

text \<open>
  The external collaborator: one function per prompt sent through
  \<^verbatim>\<open>openai.chat.completions.create\<close>. The three comparisons give the parsed JSON,
  the others the trimmed text of the reply.
\<close>

record classifier =
  compareText :: "string \<Rightarrow> string \<Rightarrow> error + text_json"
  compareImages :: "string \<Rightarrow> string \<Rightarrow> error + image_json"
  compareCategory :: "string \<Rightarrow> string \<Rightarrow> error + type_json"
  askDepartment :: "string \<Rightarrow> error + string"
  askPriority :: "string \<Rightarrow> error + string"
  askComplaintType :: "string \<Rightarrow> error + string"
  askEthicalScore :: "string \<Rightarrow> error + string"

subsection \<open>Analyzer results\<close>

record scored =
  score :: real

record reasoned = scored +
  reasoning :: string

record semantic_analysis = reasoned +
  problemMatch :: bool
  severityMatch :: bool
  infrastructureMatch :: bool

record location_analysis = reasoned +
  distance :: "real option"
  withinProximity :: bool
  addressSimilarity :: "real option"

record image_analysis = reasoned +
  sameLocation :: "bool option"
  sameProblem :: "bool option"
  visualMatch :: bool

record temporal_analysis = reasoned +
  hoursDiff :: "real option"

record type_analysis = scored +
  sameType :: bool
  newType :: string
  existingType :: string

record geo_location =
  latitude :: real
  longitude :: real
  address :: "string option"

subsection \<open>analyzeSemanticSimilarity\<close>

definition analyzeSemanticSimilarity ::
  "classifier \<Rightarrow> string \<Rightarrow> string \<Rightarrow> error + semantic_analysis" where
  "analyzeSemanticSimilarity cls newComplaint existingComplaint =
     try_catch
       (bindE (compareText cls newComplaint existingComplaint) (\<lambda>analysis.
          Inr \<lparr> score = num_or (tj_score analysis) 0,
                reasoning = str_or (tj_reasoning analysis) ''No reasoning provided'',
                problemMatch = bool_or_false (problem_match analysis),
                severityMatch = bool_or_false (severity_match analysis),
                infrastructureMatch = bool_or_false (infrastructure_match analysis) \<rparr>))
       (\<lambda>err. Inr \<lparr> score = 0, reasoning = ''Analysis failed'', problemMatch = False,
                     severityMatch = False, infrastructureMatch = False \<rparr>)"

subsection \<open>calculateDistance and calculateAddressSimilarity\<close>

text \<open>\<^verbatim>\<open>Math.atan2(y, x)\<close> on real arguments.\<close>

definition atan2 :: "real \<Rightarrow> real \<Rightarrow> real" where
  "atan2 y x =
     (if 0 < x then arctan (y / x)
      else if x < 0 \<and> 0 \<le> y then arctan (y / x) + pi
      else if x < 0 then arctan (y / x) - pi
      else if 0 < y then pi / 2
      else if y < 0 then - (pi / 2)
      else 0)"

definition calculateDistance :: "real \<Rightarrow> real \<Rightarrow> real \<Rightarrow> real \<Rightarrow> real" where
  "calculateDistance lat1 lon1 lat2 lon2 =
     (let R = 6371;
          dLat = (lat2 - lat1) * pi / 180;
          dLon = (lon2 - lon1) * pi / 180;
          a = sin (dLat / 2) * sin (dLat / 2) +
              cos (lat1 * pi / 180) * cos (lat2 * pi / 180) *
              sin (dLon / 2) * sin (dLon / 2);
          c = 2 * atan2 (sqrt a) (sqrt (1 - a))
      in R * c)"

text \<open>
  Strings are byte lists here, so \<^verbatim>\<open>\s\<close> is the ASCII white space; the regular
  expression \<^verbatim>\<open>[^a-z0-9\s]\<close> removes every other byte.
\<close>

definition is_space :: "char \<Rightarrow> bool" where
  "is_space c = ((of_char c :: nat) \<in> {9, 10, 11, 12, 13, 32})"

definition toLowerCase :: "string \<Rightarrow> string" where
  "toLowerCase s =
     map (\<lambda>c. if 65 \<le> (of_char c :: nat) \<and> (of_char c :: nat) \<le> 90
               then char_of ((of_char c :: nat) + 32) else c) s"

definition trim :: "string \<Rightarrow> string" where
  "trim s = rev (dropWhile is_space (rev (dropWhile is_space s)))"

definition normalize :: "string \<Rightarrow> string" where
  "normalize str =
     trim (filter (\<lambda>c. (97 \<le> (of_char c :: nat) \<and> (of_char c :: nat) \<le> 122) \<or>
                        (48 \<le> (of_char c :: nat) \<and> (of_char c :: nat) \<le> 57) \<or>
                        is_space c)
             (toLowerCase str))"

text \<open>
  \<^verbatim>\<open>str.split(/\s+/)\<close>: the flag says that the previous character was white space;
  the second argument is the current word, reversed.
\<close>

fun split_ws :: "bool \<Rightarrow> string \<Rightarrow> string \<Rightarrow> string list" where
  "split_ws insep cur [] = [rev cur]"
| "split_ws insep cur (c # cs) =
     (if is_space c
      then (if insep then split_ws True cur cs else rev cur # split_ws True [] cs)
      else split_ws False (c # cur) cs)"

definition calculateAddressSimilarity :: "string \<Rightarrow> string \<Rightarrow> real" where
  "calculateAddressSimilarity address1 address2 =
     (if address1 = [] \<or> address2 = [] then 0
      else
        let norm1 = normalize address1;
            norm2 = normalize address2
        in if norm1 = norm2 then 1
           else
             let words1 = split_ws False [] norm1;
                 words2 = split_ws False [] norm2;
                 intersection = filter (\<lambda>word. word \<in> set words2) words1;
                 union = remdups (words1 @ words2)
             in real (length intersection) / real (length union))"

subsection \<open>analyzeLocationProximity\<close>

text \<open>
  Scores are real numbers. Where the code's doubles round, a sum can fall on the other
  side of a threshold: 0.7 + 0.2 is 0.9 here and just below 0.9 in the code.
\<close>

text \<open>
  The distance that the source interpolates into the rationale
  (\<^verbatim>\<open>Math.round(distance * 1000)\<close>, \<^verbatim>\<open>distance.toFixed(2)\<close>) is left out of the
  rationale string; the \<open>distance\<close> field carries it.
\<close>

definition analyzeLocationProximity ::
  "geo_location option \<Rightarrow> geo_location option \<Rightarrow> error + location_analysis" where
  "analyzeLocationProximity newLocation existingLocation =
     try_catch
       (case (newLocation, existingLocation) of
          (Some nl, Some el) \<Rightarrow>
            (let d = calculateDistance (latitude nl) (longitude nl) (latitude el) (longitude el);
                 sim = calculateAddressSimilarity (str_or (address nl) []) (str_or (address el) []);
                 (score0, reasoning0, proximity) =
                   (if d \<le> 0.05 then (0.95, ''Very close proximity'', True)
                    else if d \<le> 0.1 then (0.85, ''Close proximity'', True)
                    else if d \<le> 0.2 then (0.7, ''Nearby'', True)
                    else if d \<le> 0.5 then (0.4, ''Same area'', False)
                    else if d \<le> 1.0 then (0.2, ''Same locality'', False)
                    else (0, ''Different areas'', False));
                 (score1, reasoning1) =
                   (if sim > 0.8 then (min 1.0 (score0 + 0.2), reasoning0 @ '' + similar addresses'')
                    else (score0, reasoning0))
             in Inr \<lparr> score = score1, reasoning = reasoning1, distance = Some d,
                      withinProximity = proximity, addressSimilarity = Some sim \<rparr>)
        | _ \<Rightarrow>
            Inr \<lparr> score = 0, reasoning = ''One or both locations missing'', distance = None,
                  withinProximity = False, addressSimilarity = None \<rparr>)
       (\<lambda>err. Inr \<lparr> score = 0, reasoning = ''Location analysis failed'', distance = None,
                     withinProximity = False, addressSimilarity = None \<rparr>)"

subsection \<open>analyzeImageSimilarity\<close>

text \<open>An image reference is \<open>None\<close> for \<^verbatim>\<open>null\<close>; the empty string is falsy too.\<close>

definition missing_url :: "string option \<Rightarrow> bool" where
  "missing_url u = (case u of None \<Rightarrow> True | Some s \<Rightarrow> s = [])"

definition analyzeImageSimilarity ::
  "classifier \<Rightarrow> string option \<Rightarrow> string option \<Rightarrow> error + image_analysis" where
  "analyzeImageSimilarity cls newImageUrl existingImageUrl =
     try_catch
       (if missing_url newImageUrl \<or> missing_url existingImageUrl
        then Inr \<lparr> score = 0, reasoning = ''One or both images missing'',
                   sameLocation = None, sameProblem = None, visualMatch = False \<rparr>
        else
          bindE (compareImages cls (the newImageUrl) (the existingImageUrl)) (\<lambda>analysis.
            Inr \<lparr> score = num_or (ij_score analysis) 0,
                  reasoning = str_or (ij_reasoning analysis) ''No reasoning provided'',
                  sameLocation = Some (bool_or_false (same_location analysis)),
                  sameProblem = Some (bool_or_false (same_problem analysis)),
                  visualMatch = bool_or_false (visual_match analysis) \<rparr>))
       (\<lambda>err. Inr \<lparr> score = 0, reasoning = ''Image analysis failed'',
                     sameLocation = None, sameProblem = None, visualMatch = False \<rparr>)"

subsection \<open>analyzeTemporalRelevance\<close>

text \<open>
  The argument of the recency analyzer: \<open>Undefined\<close> (\<^verbatim>\<open>new Date(undefined)\<close> is an
  invalid date, whose difference to now is \<^verbatim>\<open>NaN\<close>), a point in time in epoch
  milliseconds (a store timestamp or a date string), or a value whose conversion
  throws. \<open>None\<close> is \<^verbatim>\<open>NaN\<close>, on which every comparison is false.
\<close>

datatype date_value = Undefined | DateMs real | ThrowingDate

definition hours_since :: "real \<Rightarrow> date_value \<Rightarrow> error + real option" where
  "hours_since now existingComplaintDate =
     (case existingComplaintDate of
        Undefined \<Rightarrow> Inr None
      | DateMs ms \<Rightarrow> Inr (Some ((now - ms) / (1000 * 60 * 60)))
      | ThrowingDate \<Rightarrow> Inl TypeError)"

definition nan_le :: "real option \<Rightarrow> real \<Rightarrow> bool" where
  "nan_le x y = (case x of None \<Rightarrow> False | Some v \<Rightarrow> v \<le> y)"

definition analyzeTemporalRelevance :: "real \<Rightarrow> date_value \<Rightarrow> error + temporal_analysis" where
  "analyzeTemporalRelevance now existingComplaintDate =
     try_catch
       (bindE (hours_since now existingComplaintDate) (\<lambda>hrs.
          let (s, r) =
                (if nan_le hrs 24 then (1.0, ''Same day complaint'')
                 else if nan_le hrs 72 then (0.8, ''Within 3 days'')
                 else if nan_le hrs 168 then (0.6, ''Within 1 week'')
                 else if nan_le hrs 720 then (0.3, ''Within 1 month'')
                 else (0.1, ''Old complaint''))
          in Inr \<lparr> score = s, reasoning = r, hoursDiff = hrs \<rparr>))
       (\<lambda>err. Inr \<lparr> score = 0.5, reasoning = ''Date analysis failed'', hoursDiff = None \<rparr>)"

subsection \<open>analyzeComplaintType\<close>

definition analyzeComplaintType ::
  "classifier \<Rightarrow> string \<Rightarrow> string \<Rightarrow> error + type_analysis" where
  "analyzeComplaintType cls newComplaint existingComplaint =
     try_catch
       (bindE (compareCategory cls newComplaint existingComplaint) (\<lambda>analysis.
          Inr \<lparr> score = num_or (cj_score analysis) 0,
                sameType = bool_or_false (same_type analysis),
                newType = str_or (new_type analysis) ''unknown'',
                existingType = str_or (existing_type analysis) ''unknown'' \<rparr>))
       (\<lambda>err. Inr \<lparr> score = 0, sameType = False, newType = ''unknown'',
                     existingType = ''unknown'' \<rparr>)"

subsection \<open>decideDuplicateStatus and calculateConfidence\<close>

definition decideDuplicateStatus ::
  "real \<Rightarrow> semantic_analysis \<Rightarrow> location_analysis \<Rightarrow> image_analysis \<Rightarrow> bool" where
  "decideDuplicateStatus finalScore semantic loc img =
     (if finalScore \<ge> 0.85 then True
      else if finalScore \<ge> 0.75 \<and> withinProximity loc then True
      else if score semantic \<ge> 0.85 \<and> score loc \<ge> 0.7 then True
      else if score loc \<ge> 0.9 \<and> score semantic \<ge> 0.6 then True
      else if score img \<ge> 0.8 \<and> score loc \<ge> 0.6 then True
      else finalScore \<ge> 0.8)"

definition calculateConfidence ::
  "real \<Rightarrow> semantic_analysis \<Rightarrow> location_analysis \<Rightarrow> image_analysis \<Rightarrow> real" where
  "calculateConfidence finalScore semantic loc img =
     (let strongIndicators =
            length (filter (\<lambda>b. b)
              [score semantic \<ge> 0.8, withinProximity loc, score img \<ge> 0.7])
      in if strongIndicators \<ge> 2 then min 1.0 (finalScore + 0.1) else finalScore)"

subsection \<open>checkComplaintSimilarity\<close>

record weights =
  w_semantic :: real
  w_location :: real
  w_image :: real
  w_temporal :: real
  w_type :: real

definition similarity_weights :: weights where
  "similarity_weights =
     \<lparr> w_semantic = 0.35, w_location = 0.30, w_image = 0.20, w_temporal = 0.10, w_type = 0.05 \<rparr>"

record breakdown =
  bd_semantic :: semantic_analysis
  bd_location :: location_analysis
  bd_image :: image_analysis
  bd_temporal :: temporal_analysis
  bd_type :: type_analysis

text \<open>
  The result of one evaluation. \<open>sim_breakdown\<close> is \<open>None\<close> for the empty object of the
  error branch. The \<^verbatim>\<open>explanation\<close> text is not modelled.
\<close>

record similarity =
  sim_score :: real
  isDuplicate :: bool
  sim_breakdown :: "breakdown option"
  confidence :: real

definition finalScore_of ::
  "semantic_analysis \<Rightarrow> location_analysis \<Rightarrow> image_analysis \<Rightarrow> temporal_analysis \<Rightarrow>
   type_analysis \<Rightarrow> real" where
  "finalScore_of semanticAnalysis locationAnalysis imageAnalysis temporalAnalysis typeAnalysis =
     (score semanticAnalysis * w_semantic similarity_weights) +
     (score locationAnalysis * w_location similarity_weights) +
     (score imageAnalysis * w_image similarity_weights) +
     (score temporalAnalysis * w_temporal similarity_weights) +
     (score typeAnalysis * w_type similarity_weights)"

text \<open>
  The two complaints reach this function as their description strings, so
  \<^verbatim>\<open>existingComplaint.createdAt\<close> is \<^verbatim>\<open>undefined\<close>.
\<close>

definition checkComplaintSimilarity ::
  "classifier \<Rightarrow> real \<Rightarrow> string \<Rightarrow> string \<Rightarrow> geo_location option \<Rightarrow> geo_location option \<Rightarrow>
   string option \<Rightarrow> string option \<Rightarrow> error + similarity" where
  "checkComplaintSimilarity cls now newComplaint existingComplaint newLocation existingLocation
       newImageUrl existingImageUrl =
     try_catch
       (bindE (analyzeSemanticSimilarity cls newComplaint existingComplaint) (\<lambda>semanticAnalysis.
        bindE (analyzeLocationProximity newLocation existingLocation) (\<lambda>locationAnalysis.
        bindE (analyzeImageSimilarity cls newImageUrl existingImageUrl) (\<lambda>imageAnalysis.
        bindE (analyzeTemporalRelevance now Undefined) (\<lambda>temporalAnalysis.
        bindE (analyzeComplaintType cls newComplaint existingComplaint) (\<lambda>typeAnalysis.
          let finalScore = finalScore_of semanticAnalysis locationAnalysis imageAnalysis
                             temporalAnalysis typeAnalysis;
              dup = decideDuplicateStatus finalScore semanticAnalysis locationAnalysis
                      imageAnalysis
          in Inr \<lparr> sim_score = finalScore,
                   isDuplicate = dup,
                   sim_breakdown = Some \<lparr> bd_semantic = semanticAnalysis,
                                           bd_location = locationAnalysis,
                                           bd_image = imageAnalysis,
                                           bd_temporal = temporalAnalysis,
                                           bd_type = typeAnalysis \<rparr>,
                   confidence = calculateConfidence finalScore semanticAnalysis
                                  locationAnalysis imageAnalysis \<rparr>))))))
       (\<lambda>err. Inr \<lparr> sim_score = 0, isDuplicate = False, sim_breakdown = None,
                     confidence = 0 \<rparr>)"

subsection \<open>calculateEthicalScore\<close>

definition is_digit :: "char \<Rightarrow> bool" where
  "is_digit c = (48 \<le> (of_char c :: nat) \<and> (of_char c :: nat) \<le> 57)"

text \<open>\<^verbatim>\<open>parseInt\<close> on a string of decimal digits; \<open>None\<close> is \<^verbatim>\<open>NaN\<close>.\<close>

definition parseInt :: "string \<Rightarrow> nat option" where
  "parseInt ds =
     (if ds = [] then None
      else Some (foldl (\<lambda>n c. 10 * n + ((of_char c :: nat) - 48)) 0 ds))"

definition calculateEthicalScore :: "classifier \<Rightarrow> string \<Rightarrow> error + nat" where
  "calculateEthicalScore cls messageText =
     try_catch
       (bindE (askEthicalScore cls messageText) (\<lambda>content.
          let response = trim content;
              parsed = parseInt (filter is_digit response);
              finalScore = (case parsed of None \<Rightarrow> 7 | Some n \<Rightarrow> max 1 (min 10 n))
          in Inr finalScore))
       (\<lambda>err. Inr 7)"

subsection \<open>categorizeDepartment, assessComplaintPriority, categorizeComplaintType\<close>

definition validDepartments :: "string list" where
  "validDepartments =
     [''Water Supply'', ''Waste Management'', ''Roads & Infrastructure'',
      ''Health & Sanitation'', ''Building & Planning'', ''Electricity'',
      ''Parks & Recreation'', ''Traffic & Transport'', ''Property Tax'',
      ''General Administration'']"

definition categorizeDepartment :: "classifier \<Rightarrow> string \<Rightarrow> error + string" where
  "categorizeDepartment cls description =
     try_catch
       (bindE (askDepartment cls description) (\<lambda>content.
          let response = trim content
          in Inr (if response \<in> set validDepartments then response
                  else ''General Administration'')))
       (\<lambda>err. Inr ''General Administration'')"

definition validPriorities :: "string list" where
  "validPriorities = [''emergency'', ''high'', ''medium'', ''low'']"

definition assessComplaintPriority :: "classifier \<Rightarrow> string \<Rightarrow> error + string" where
  "assessComplaintPriority cls description =
     try_catch
       (bindE (askPriority cls description) (\<lambda>content.
          let response = toLowerCase (trim content)
          in Inr (if response \<in> set validPriorities then response else ''medium'')))
       (\<lambda>err. Inr ''medium'')"

definition validTypes :: "string list" where
  "validTypes =
     [''Water Supply Issues'', ''Drainage Problems'', ''Road Maintenance'',
      ''Street Lighting'', ''Waste Collection'', ''Public Toilets'',
      ''Building Permits'', ''Property Tax'', ''Traffic Management'',
      ''Park Maintenance'', ''Health Services'', ''General Services'']"

definition categorizeComplaintType :: "classifier \<Rightarrow> string \<Rightarrow> error + string" where
  "categorizeComplaintType cls description =
     try_catch
       (bindE (askComplaintType cls description) (\<lambda>content.
          let response = trim content
          in Inr (if response \<in> set validTypes then response else ''General Services'')))
       (\<lambda>err. Inr ''General Services'')"

subsection \<open>The module as firebaseService.js sees it\<close>

text \<open>
  \<^verbatim>\<open>getAIService()\<close> gives the module object; firebaseService.js calls its functions
  inside \<^verbatim>\<open>try\<close> blocks of its own, so they are taken as functions that may throw.
\<close>

record ai_service =
  ai_categorizeDepartment :: "string \<Rightarrow> error + string"
  ai_assessComplaintPriority :: "string \<Rightarrow> error + string"
  ai_categorizeComplaintType :: "string \<Rightarrow> error + string"
  ai_checkComplaintSimilarity ::
    "string \<Rightarrow> string \<Rightarrow> geo_location option \<Rightarrow> geo_location option \<Rightarrow>
     string option \<Rightarrow> string option \<Rightarrow> error + similarity"

definition aiService :: "classifier \<Rightarrow> real \<Rightarrow> ai_service" where
  "aiService cls now =
     \<lparr> ai_categorizeDepartment = categorizeDepartment cls,
       ai_assessComplaintPriority = assessComplaintPriority cls,
       ai_categorizeComplaintType = categorizeComplaintType cls,
       ai_checkComplaintSimilarity = checkComplaintSimilarity cls now \<rparr>"

section \<open>The repository (firebaseService.js)\<close>

subsection \<open>Documents\<close>

datatype complaint_status = Draft | Active | InProgress | Open | Cancelled

datatype ticket_status = TicketOpen | TicketInProgress | TicketResolved | TicketClosed

record progress =
  completionPercentage :: nat

record complaint_workflow = progress +
  step :: string
  nextAction :: string

record ticket_workflow = progress +
  currentStep :: string
  nextStep :: string

text \<open>
  The fields that a complaint and its ticket share. \<open>followUpUsers\<close> is the empty list
  for a document that has no such field. Times are epoch milliseconds.
\<close>

record case_core =
  description :: string
  department :: string
  priority :: string
  category :: string
  createdBy :: string
  createdAt :: real
  updatedAt :: real
  followUpUsers :: "string list"

text \<open>
  Not modelled: the copy of the intent analysis, the \<^verbatim>\<open>metadata\<close> object and the
  \<^verbatim>\<open>workflow.steps\<close> log.
\<close>

record complaint = case_core +
  complaint_id :: string
  status :: complaint_status
  confirmedAt :: "real option"
  cancelledAt :: "real option"
  estimatedResolutionTime :: nat
  location :: "geo_location option"
  imageUrl :: "string option"
  requiresLocationSharing :: bool
  ticketId :: "string option"
  workflow :: complaint_workflow

record ticket = case_core +
  tk_ticketId :: string
  tk_complaintId :: string
  tk_status :: ticket_status
  tk_location :: geo_location
  tk_estimatedResolution :: real
  tk_assignedTo :: "string option"
  tk_updates :: "string list"
  tk_workflow :: ticket_workflow

text \<open>
  A reporter's profile: the three fields that the operations below read or write
  (\<^verbatim>\<open>statistics.avgEthicalScore\<close>, which gets the same value as \<open>ethicalScore\<close>, is
  left out). A stored 0 is falsy for \<^verbatim>\<open>||\<close>, as an absent field is.
\<close>

record citizen =
  ethicalScore :: real
  totalMessages :: nat
  complaintsCount :: nat

text \<open>
  The three collections, each a list of documents with their ids. Writes are taken to
  reach the store; the only failure of a write that is modelled is the one of
  \<^verbatim>\<open>update\<close> on a document that does not exist.
\<close>

record store =
  complaints :: "(string \<times> complaint) list"
  tickets :: "(string \<times> ticket) list"
  citizens :: "(string \<times> citizen) list"

definition doc_get :: "(string \<times> 'a) list \<Rightarrow> string \<Rightarrow> 'a option" where
  "doc_get coll k = map_of coll k"

definition doc_set :: "(string \<times> 'a) list \<Rightarrow> string \<Rightarrow> 'a \<Rightarrow> (string \<times> 'a) list" where
  "doc_set coll k v = AList.update k v coll"

definition doc_update ::
  "(string \<times> 'a) list \<Rightarrow> string \<Rightarrow> ('a \<Rightarrow> 'a) \<Rightarrow> error + (string \<times> 'a) list" where
  "doc_update coll k f =
     (case map_of coll k of
        None \<Rightarrow> Inl NotFound
      | Some v \<Rightarrow> Inr (AList.update k (f v) coll))"

definition arrayUnion :: "'a list \<Rightarrow> 'a \<Rightarrow> 'a list" where
  "arrayUnion xs x = (if x \<in> set xs then xs else xs @ [x])"

subsection \<open>formatPhoneNumber (utils/helpers.js)\<close>

definition formatPhoneNumber :: "string \<Rightarrow> string" where
  "formatPhoneNumber phoneNumber =
     (if phoneNumber = [] then []
      else
        let cleaned = filter is_digit phoneNumber
        in if length cleaned = 10 then ''91'' @ cleaned
           else if length cleaned = 12 \<and> take 2 cleaned = ''91'' then cleaned
           else if length cleaned = 13 \<and> take 3 cleaned = ''911'' then drop 1 cleaned
           else if length cleaned \<ge> 10 \<and> length cleaned \<le> 15 then cleaned
           else phoneNumber)"

subsection \<open>updateCitizenEthicalScore\<close>

text \<open>\<^verbatim>\<open>Math.round\<close> rounds half up.\<close>

definition js_round :: "real \<Rightarrow> real" where
  "js_round x = of_int \<lfloor>x + 1 / 2\<rfloor>"

definition newEthicalScore :: "citizen \<Rightarrow> real \<Rightarrow> real" where
  "newEthicalScore currentData messageEthicalScore =
     (let currentScore = (if ethicalScore currentData = 0 then 7.5 else ethicalScore currentData);
          totalMessages = (if totalMessages currentData = 0 then 1 else totalMessages currentData);
          weight = real (min totalMessages 100);
          decay = max 0.1 (1 / sqrt (real totalMessages + 1));
          newScore = ((currentScore * weight * (1 - decay)) + (messageEthicalScore * 3)) /
                     (weight * (1 - decay) + 3);
          roundedScore = js_round (newScore * 10) / 10;
          finalScore = max 1 (min 10 roundedScore)
      in finalScore)"

definition updateCitizenEthicalScore :: "store \<Rightarrow> string \<Rightarrow> real \<Rightarrow> store" where
  "updateCitizenEthicalScore st phoneNumber messageEthicalScore =
     (let formattedPhone = formatPhoneNumber phoneNumber
      in case doc_get (citizens st) formattedPhone of
           None \<Rightarrow> st
         | Some currentData \<Rightarrow>
             (case doc_update (citizens st) formattedPhone
                     (\<lambda>c. c\<lparr> ethicalScore := newEthicalScore currentData messageEthicalScore \<rparr>) of
                Inl err \<Rightarrow> st
              | Inr cs \<Rightarrow> st\<lparr> citizens := cs \<rparr>))"

text \<open>
  The profile that \<^verbatim>\<open>ensureCitizenExists\<close> writes for a reporter's first message.
\<close>

definition newCitizenData :: citizen where
  "newCitizenData = \<lparr> ethicalScore = 7.5, totalMessages = 0, complaintsCount = 0 \<rparr>"

text \<open>
  The update as the specification words it, for comparison with \<open>newEthicalScore\<close>:
  weight = min(totalMessagesSoFar, 100), decay = max(0.1, 1 / sqrt(totalMessages + 1)),
  newScore = (currentScore weight (1 - decay) + messageScore 3) / (weight (1 - decay) + 3),
  result = clamp(round(newScore, 1 decimal), 1, 10).
\<close>

definition reputation_formula :: "real \<Rightarrow> nat \<Rightarrow> real \<Rightarrow> real" where
  "reputation_formula currentScore messagesSoFar messageScore =
     (let weight = real (min messagesSoFar 100);
          decay = max 0.1 (1 / sqrt (real messagesSoFar + 1))
      in (currentScore * weight * (1 - decay) + messageScore * 3) / (weight * (1 - decay) + 3))"

definition reputation_result :: "real \<Rightarrow> real" where
  "reputation_result newScore = max 1 (min 10 (js_round (newScore * 10) / 10))"

subsection \<open>calculateEstimatedResolutionTime\<close>

text \<open>
  The two tables are looked up by their own keys only; the members that a JavaScript
  object inherits (a department named \<^verbatim>\<open>constructor\<close>, say) are not modelled. With
  aiService.js the names that reach this function come from the lists of valid departments
  and priorities.
\<close>

definition baseTimes :: "(string \<times> nat) list" where
  "baseTimes =
     [(''Water Supply'', 24), (''Waste Management'', 48), (''Roads & Infrastructure'', 72),
      (''Health & Sanitation'', 24), (''Building & Planning'', 168), (''Electricity'', 12),
      (''Parks & Recreation'', 48), (''Traffic & Transport'', 24), (''Property Tax'', 72),
      (''General Administration'', 48)]"

definition priorityMultipliers :: "(string \<times> real) list" where
  "priorityMultipliers = [(''emergency'', 0.25), (''high'', 0.5), (''medium'', 1.0), (''low'', 1.5)]"

definition calculateEstimatedResolutionTime :: "string \<Rightarrow> string \<Rightarrow> nat" where
  "calculateEstimatedResolutionTime dept prio =
     (let baseTime = (case map_of baseTimes dept of None \<Rightarrow> 48 | Some b \<Rightarrow> b);
          multiplier = (case map_of priorityMultipliers prio of None \<Rightarrow> 1.0 | Some m \<Rightarrow> m)
      in nat \<lceil>real baseTime * multiplier\<rceil>)"

subsection \<open>createDraftComplaint\<close>

text \<open>
  \<open>complaintId\<close> is the value of \<^verbatim>\<open>generateComplaintId()\<close>, \<open>now\<close> the server time.
  A rejected categorisation promise keeps the default.
\<close>

definition settled_or :: "error + string \<Rightarrow> string \<Rightarrow> string" where
  "settled_or r d = (case r of Inl e \<Rightarrow> d | Inr v \<Rightarrow> v)"

definition createDraftComplaint ::
  "store \<Rightarrow> ai_service \<Rightarrow> real \<Rightarrow> string \<Rightarrow> string \<Rightarrow> string \<Rightarrow> string option \<Rightarrow>
   complaint \<times> store" where
  "createDraftComplaint st ai now complaintId desc phoneNumber img =
     (let formattedPhone = formatPhoneNumber phoneNumber;
          dept = settled_or (ai_categorizeDepartment ai desc) ''General Administration'';
          prio = settled_or (ai_assessComplaintPriority ai desc) ''medium'';
          cat = settled_or (ai_categorizeComplaintType ai desc) ''General Services'';
          estimated = calculateEstimatedResolutionTime dept prio;
          draftComplaint =
            \<lparr> description = trim desc,
              department = dept,
              priority = prio,
              category = cat,
              createdBy = formattedPhone,
              createdAt = now,
              updatedAt = now,
              followUpUsers = [],
              complaint_id = complaintId,
              status = Draft,
              confirmedAt = None,
              cancelledAt = None,
              estimatedResolutionTime = estimated,
              location = None,
              imageUrl = (if missing_url img then None else img),
              requiresLocationSharing = True,
              ticketId = None,
              workflow = \<lparr> completionPercentage = 30, step = ''location_required'',
                           nextAction = ''await_location'' \<rparr> \<rparr>
      in (draftComplaint, st\<lparr> complaints := doc_set (complaints st) complaintId draftComplaint \<rparr>))"

subsection \<open>createTicketRecord and updateCitizenComplaintCount\<close>

definition createTicketRecord ::
  "store \<Rightarrow> real \<Rightarrow> string \<Rightarrow> string \<Rightarrow> complaint \<Rightarrow> geo_location \<Rightarrow> store" where
  "createTicketRecord st now newTicketId complaintId complaintData locationData =
     (let ticketData =
            \<lparr> description = description complaintData,
              department = department complaintData,
              priority = priority complaintData,
              category = category complaintData,
              createdBy = createdBy complaintData,
              createdAt = now,
              updatedAt = now,
              followUpUsers = [createdBy complaintData],
              tk_ticketId = newTicketId,
              tk_complaintId = complaintId,
              tk_status = TicketOpen,
              tk_location = locationData,
              tk_estimatedResolution =
                now + real (estimatedResolutionTime complaintData) * 60 * 60 * 1000,
              tk_assignedTo = None,
              tk_updates = [],
              tk_workflow = \<lparr> completionPercentage = 70, currentStep = ''ticket_created'',
                              nextStep = ''department_assignment'' \<rparr> \<rparr>
      in st\<lparr> tickets := doc_set (tickets st) newTicketId ticketData \<rparr>)"

definition updateCitizenComplaintCount :: "store \<Rightarrow> string \<Rightarrow> store" where
  "updateCitizenComplaintCount st phoneNumber =
     (case doc_update (citizens st) (formatPhoneNumber phoneNumber)
             (\<lambda>c. c\<lparr> complaintsCount := complaintsCount c + 1 \<rparr>) of
        Inl err \<Rightarrow> st
      | Inr cs \<Rightarrow> st\<lparr> citizens := cs \<rparr>)"

subsection \<open>confirmComplaint and cancelComplaint\<close>

text \<open>
  \<open>newTicketId\<close> is the value of \<^verbatim>\<open>generateTicketId(8)\<close>; \<open>geocode\<close> is
  \<^verbatim>\<open>geocodeAddress\<close>, which catches its own failures and always gives a string.
\<close>

definition confirmComplaint ::
  "store \<Rightarrow> (real \<Rightarrow> real \<Rightarrow> string) \<Rightarrow> real \<Rightarrow> string \<Rightarrow> string \<Rightarrow> geo_location \<Rightarrow>
   error + (string \<times> store)" where
  "confirmComplaint st geocode now newTicketId complaintId whatsappLocationData =
     try_catch
       (case doc_get (complaints st) complaintId of
          None \<Rightarrow> Inl NotFound
        | Some complaintData \<Rightarrow>
            (let locationData =
                   \<lparr> latitude = latitude whatsappLocationData,
                     longitude = longitude whatsappLocationData,
                     address =
                       Some (str_or (address whatsappLocationData)
                               (geocode (latitude whatsappLocationData)
                                        (longitude whatsappLocationData))) \<rparr>;
                 updateData = (\<lambda>c.
                   c\<lparr> status := Active,
                      ticketId := Some newTicketId,
                      location := Some locationData,
                      requiresLocationSharing := False,
                      confirmedAt := Some now,
                      updatedAt := now,
                      workflow := (workflow c)\<lparr> step := ''confirmed'',
                                                 nextAction := ''assign_department'',
                                                 completionPercentage := 60 \<rparr> \<rparr>)
             in bindE (doc_update (complaints st) complaintId updateData) (\<lambda>cs.
                  let st1 = st\<lparr> complaints := cs \<rparr>;
                      st2 = createTicketRecord st1 now newTicketId complaintId
                              (updateData complaintData) locationData;
                      st3 = updateCitizenComplaintCount st2 (createdBy complaintData)
                  in Inr (newTicketId, st3))))
       (\<lambda>err. Inl err)"

definition cancelComplaint :: "store \<Rightarrow> real \<Rightarrow> string \<Rightarrow> error + store" where
  "cancelComplaint st now complaintId =
     try_catch
       (let updateData = (\<lambda>c.
              c\<lparr> status := Cancelled,
                 cancelledAt := Some now,
                 updatedAt := now,
                 workflow := (workflow c)\<lparr> step := ''cancelled'',
                                            nextAction := ''none'',
                                            completionPercentage := 0 \<rparr> \<rparr>)
        in bindE (doc_update (complaints st) complaintId updateData) (\<lambda>cs.
             Inr (st\<lparr> complaints := cs \<rparr>)))
       (\<lambda>err. Inl err)"

subsection \<open>addUserToComplaintFollowUp\<close>

text \<open>
  The ticket is the first one of the collection whose \<open>complaintId\<close> is the complaint's
  (\<^verbatim>\<open>limit(1)\<close>). A failure is logged and swallowed: the store stays as it is.
\<close>

definition addUserToComplaintFollowUp :: "store \<Rightarrow> real \<Rightarrow> string \<Rightarrow> string \<Rightarrow> store" where
  "addUserToComplaintFollowUp st now complaintId phoneNumber =
     (let formattedPhone = formatPhoneNumber phoneNumber
      in case doc_update (complaints st) complaintId
                (\<lambda>c. c\<lparr> followUpUsers := arrayUnion (followUpUsers c) formattedPhone,
                         updatedAt := now \<rparr>) of
           Inl err \<Rightarrow> st
         | Inr cs \<Rightarrow>
             (let st1 = st\<lparr> complaints := cs \<rparr>
              in case find (\<lambda>(k, t). tk_complaintId t = complaintId) (tickets st1) of
                   None \<Rightarrow> st1
                 | Some (k, t) \<Rightarrow>
                     st1\<lparr> tickets :=
                            doc_set (tickets st1) k
                              (t\<lparr> followUpUsers := arrayUnion (followUpUsers t) formattedPhone,
                                  updatedAt := now \<rparr>) \<rparr>))"

subsection \<open>checkDuplicateComplaint\<close>

text \<open>\<open>None\<close> is \<^verbatim>\<open>Infinity\<close>; a latitude of 0 is falsy.\<close>

definition calculateQuickDistance :: "geo_location option \<Rightarrow> geo_location option \<Rightarrow> real option" where
  "calculateQuickDistance loc1 loc2 =
     (case (loc1, loc2) of
        (Some l1, Some l2) \<Rightarrow>
          (if latitude l1 = 0 \<or> latitude l2 = 0 then None
           else Some (calculateDistance (latitude l1) (longitude l1) (latitude l2) (longitude l2)))
      | _ \<Rightarrow> None)"

definition inf_gt :: "real option \<Rightarrow> real \<Rightarrow> bool" where
  "inf_gt x y = (case x of None \<Rightarrow> True | Some v \<Rightarrow> v > y)"

text \<open>
  The query of the candidate pool: the open statuses, the last 30 days, newest first, at
  most 50.
\<close>

definition queryCandidates :: "store \<Rightarrow> real \<Rightarrow> (string \<times> complaint) list" where
  "queryCandidates st now =
     (let thirtyDaysAgo = now - 30 * 24 * 60 * 60 * 1000
      in take 50
           (sort_key (\<lambda>(k, c). - createdAt c)
              (filter (\<lambda>(k, c). status c \<in> {Active, InProgress, Open} \<and>
                                  createdAt c \<ge> thirtyDaysAgo)
                 (complaints st))))"

record best_match =
  bm_complaint :: complaint
  bm_similarity :: similarity
  bm_docId :: string

text \<open>
  Whether the loop leaves a candidate before the similarity analysis: the same reporter,
  or another department with no location on one side or more than 0.2 km between them.
  A failure of the department call lets the comparison go on.
\<close>

definition skipsCandidate ::
  "ai_service \<Rightarrow> string \<Rightarrow> string \<Rightarrow> geo_location option \<Rightarrow> complaint \<Rightarrow> bool" where
  "skipsCandidate ai complaintText formattedPhone loc existingComplaint =
     (if createdBy existingComplaint = formattedPhone then True
      else case ai_categorizeDepartment ai complaintText of
             Inl deptError \<Rightarrow> False
           | Inr newDepartment \<Rightarrow>
               department existingComplaint \<noteq> newDepartment \<and>
               (loc = None \<or> location existingComplaint = None \<or>
                inf_gt (calculateQuickDistance loc (location existingComplaint)) 0.2))"

fun scanCandidates ::
  "ai_service \<Rightarrow> string \<Rightarrow> string \<Rightarrow> geo_location option \<Rightarrow> string option \<Rightarrow>
   (string \<times> complaint) list \<Rightarrow> best_match option \<times> real \<Rightarrow> best_match option \<times> real" where
  "scanCandidates ai complaintText formattedPhone loc img [] acc = acc"
| "scanCandidates ai complaintText formattedPhone loc img ((docId, existingComplaint) # docs)
       (bestMatch, highestScore) =
     (if skipsCandidate ai complaintText formattedPhone loc existingComplaint
      then scanCandidates ai complaintText formattedPhone loc img docs (bestMatch, highestScore)
      else
        case ai_checkComplaintSimilarity ai complaintText (description existingComplaint) loc
               (location existingComplaint) img (imageUrl existingComplaint) of
          Inl similarityError \<Rightarrow>
            scanCandidates ai complaintText formattedPhone loc img docs (bestMatch, highestScore)
        | Inr sim \<Rightarrow>
            (if sim_score sim > highestScore
             then scanCandidates ai complaintText formattedPhone loc img docs
                    (Some \<lparr> bm_complaint = existingComplaint, bm_similarity = sim,
                            bm_docId = docId \<rparr>, sim_score sim)
             else scanCandidates ai complaintText formattedPhone loc img docs
                    (bestMatch, highestScore)))"

record duplicate_info =
  dup_ticketId :: "string option"
  dup_status :: complaint_status
  dup_similarity :: real
  dup_confidence :: real
  dup_breakdown :: "breakdown option"
  dup_originalComplaint :: string
  dup_department :: string
  dup_priority :: string
  dup_location :: "geo_location option"
  dup_docId :: string

text \<open>
  The four shapes of the returned object: \<^verbatim>\<open>{ isDuplicate: false }\<close> for an empty
  snapshot, the duplicate, the clean result with \<open>highestScore\<close> and \<open>totalChecked\<close>,
  and the fallback of the outer \<^verbatim>\<open>catch\<close>, which no step of the model reaches: the
  loop catches what the classification service throws, and the reads and writes of the
  store are taken to succeed. \<open>dup_docId\<close> is not a field of the source's object; it
  names the complaint that the result is about.
\<close>

datatype dup_result =
    NoCandidates
  | DuplicateFound duplicate_info
  | NotDuplicate real nat
  | Fallback error

definition checkDuplicateComplaint ::
  "store \<Rightarrow> ai_service \<Rightarrow> real \<Rightarrow> string \<Rightarrow> string \<Rightarrow> geo_location option \<Rightarrow> string option \<Rightarrow>
   dup_result \<times> store" where
  "checkDuplicateComplaint st ai now complaintText phoneNumber loc img =
     (let formattedPhone = formatPhoneNumber phoneNumber;
          snapshot = queryCandidates st now
      in if snapshot = [] then (NoCandidates, st)
         else
           let (bestMatch, highestScore) =
                 scanCandidates ai complaintText formattedPhone loc img snapshot (None, 0)
           in case bestMatch of
                Some bm \<Rightarrow>
                  (if isDuplicate (bm_similarity bm)
                   then
                     (DuplicateFound
                        \<lparr> dup_ticketId = ticketId (bm_complaint bm),
                          dup_status = status (bm_complaint bm),
                          dup_similarity = sim_score (bm_similarity bm),
                          dup_confidence = confidence (bm_similarity bm),
                          dup_breakdown = sim_breakdown (bm_similarity bm),
                          dup_originalComplaint =
                            take 150 (description (bm_complaint bm)) @ ''...'',
                          dup_department = department (bm_complaint bm),
                          dup_priority = priority (bm_complaint bm),
                          dup_location = location (bm_complaint bm),
                          dup_docId = bm_docId bm \<rparr>,
                      addUserToComplaintFollowUp st now (bm_docId bm) formattedPhone)
                   else (NotDuplicate highestScore (length snapshot), st))
              | None \<Rightarrow> (NotDuplicate highestScore (length snapshot), st))"

text \<open>
  For the statements about the loop: the candidates of a snapshot that reach the
  similarity analysis and get a verdict from it, in the order of the scan, and the loop's
  bookkeeping of the best match on such a list.
\<close>

fun scanned ::
  "ai_service \<Rightarrow> string \<Rightarrow> string \<Rightarrow> geo_location option \<Rightarrow> string option \<Rightarrow>
   (string \<times> complaint) list \<Rightarrow> best_match list" where
  "scanned ai complaintText formattedPhone loc img [] = []"
| "scanned ai complaintText formattedPhone loc img ((docId, existingComplaint) # docs) =
     (if skipsCandidate ai complaintText formattedPhone loc existingComplaint
      then scanned ai complaintText formattedPhone loc img docs
      else
        case ai_checkComplaintSimilarity ai complaintText (description existingComplaint) loc
               (location existingComplaint) img (imageUrl existingComplaint) of
          Inl similarityError \<Rightarrow> scanned ai complaintText formattedPhone loc img docs
        | Inr sim \<Rightarrow>
            \<lparr> bm_complaint = existingComplaint, bm_similarity = sim, bm_docId = docId \<rparr> #
            scanned ai complaintText formattedPhone loc img docs)"

definition score_of :: "best_match \<Rightarrow> real" where
  "score_of b = sim_score (bm_similarity b)"

fun keepBest :: "best_match list \<Rightarrow> best_match option \<times> real \<Rightarrow> best_match option \<times> real" where
  "keepBest [] acc = acc"
| "keepBest (b # bs) (bestMatch, highestScore) =
     (if score_of b > highestScore then keepBest bs (Some b, score_of b)
      else keepBest bs (bestMatch, highestScore))"

text \<open>
  The object returned for a duplicate, as a function of the best match, and the position of
  the best match in a scanned list: the first candidate whose score is above 0, above the
  score of every candidate before it and not below the score of any candidate after it.
\<close>

definition duplicate_info_of :: "best_match \<Rightarrow> duplicate_info" where
  "duplicate_info_of bm =
     \<lparr> dup_ticketId = ticketId (bm_complaint bm),
       dup_status = status (bm_complaint bm),
       dup_similarity = sim_score (bm_similarity bm),
       dup_confidence = confidence (bm_similarity bm),
       dup_breakdown = sim_breakdown (bm_similarity bm),
       dup_originalComplaint = take 150 (description (bm_complaint bm)) @ ''...'',
       dup_department = department (bm_complaint bm),
       dup_priority = priority (bm_complaint bm),
       dup_location = location (bm_complaint bm),
       dup_docId = bm_docId bm \<rparr>"

definition first_highest :: "best_match list \<Rightarrow> best_match list \<Rightarrow> best_match \<Rightarrow> best_match list \<Rightarrow> bool" where
  "first_highest cs pre b post =
     (cs = pre @ b # post \<and> 0 < score_of b \<and>
      (\<forall>b' \<in> set pre. score_of b' < score_of b) \<and>
      (\<forall>b' \<in> set post. score_of b' \<le> score_of b))"

section \<open>A complaint's life as a sequence of calls\<close>

text \<open>
  The operations that firebaseService.js exports to the webhook controller, as requests
  against the store. A request that throws leaves the store as it was.
\<close>

datatype request =
    CreateDraft ai_service real string string string "string option"
  | Confirm "real \<Rightarrow> real \<Rightarrow> string" real string string geo_location
  | Cancel real string
  | FollowUp real string string
  | CheckDuplicate ai_service real string string "geo_location option" "string option"
  | RateMessage string real

fun serve :: "store \<Rightarrow> request \<Rightarrow> store" where
  "serve st (CreateDraft ai now complaintId desc phoneNumber img) =
     snd (createDraftComplaint st ai now complaintId desc phoneNumber img)"
| "serve st (Confirm geocode now newTicketId complaintId whatsappLocationData) =
     (case confirmComplaint st geocode now newTicketId complaintId whatsappLocationData of
        Inl err \<Rightarrow> st
      | Inr (tid, st') \<Rightarrow> st')"
| "serve st (Cancel now complaintId) =
     (case cancelComplaint st now complaintId of Inl err \<Rightarrow> st | Inr st' \<Rightarrow> st')"
| "serve st (FollowUp now complaintId phoneNumber) =
     addUserToComplaintFollowUp st now complaintId phoneNumber"
| "serve st (CheckDuplicate ai now complaintText phoneNumber loc img) =
     snd (checkDuplicateComplaint st ai now complaintText phoneNumber loc img)"
| "serve st (RateMessage phoneNumber messageEthicalScore) =
     updateCitizenEthicalScore st phoneNumber messageEthicalScore"

definition empty_store :: store where
  "empty_store = \<lparr> complaints = [], tickets = [], citizens = [] \<rparr>"

text \<open>
  What the claims about a complaint's life speak of: the workflow percentage of a complaint,
  a request that writes a new draft under an id, a request that cancels a complaint, and
  the tickets' follow-up lists holding the reporter who created the complaint.
\<close>

definition percentage_of :: "store \<Rightarrow> string \<Rightarrow> nat option" where
  "percentage_of st complaintId =
     map_option (\<lambda>c. completionPercentage (workflow c)) (doc_get (complaints st) complaintId)"

fun recreates :: "request \<Rightarrow> string \<Rightarrow> bool" where
  "recreates (CreateDraft ai now complaintId desc phoneNumber img) k = (complaintId = k)"
| "recreates r k = False"

fun cancels :: "request \<Rightarrow> string \<Rightarrow> bool" where
  "cancels (Cancel now complaintId) k = (complaintId = k)"
| "cancels r k = False"


section \<open>Example values\<close>

text \<open>Concrete classifiers, analyses and stores, on which the theorems below are run.\<close>

definition example_new_text :: string where
  "example_new_text = ''Water leaking near the main signal''"

definition example_text_A :: string where
  "example_text_A = ''Pipe burst on the road''"

definition example_text_B :: string where
  "example_text_B = ''Water leaking near the main signal since morning''"

definition example_classifier :: classifier where
  "example_classifier =
     \<lparr> compareText = (\<lambda>a b.
         Inr \<lparr> tj_score = Some (if b = example_text_A then 0.6 else 1.0),
               tj_reasoning = Some ''same problem'', problem_match = Some True,
               severity_match = Some True, infrastructure_match = None \<rparr>),
       compareImages = (\<lambda>a b.
         Inr \<lparr> ij_score = Some 1.0, ij_reasoning = Some ''same place'',
               same_location = Some True, same_problem = Some True, visual_match = Some True \<rparr>),
       compareCategory = (\<lambda>a b.
         Inr \<lparr> cj_score = Some 1.0, same_type = Some True, new_type = Some ''water_supply'',
               existing_type = Some ''water_supply'' \<rparr>),
       askDepartment = (\<lambda>d. Inr ''Water Supply''),
       askPriority = (\<lambda>d. Inr ''high''),
       askComplaintType = (\<lambda>d. Inr ''Water Supply Issues''),
       askEthicalScore = (\<lambda>m. Inr ''8'') \<rparr>"

definition failing_classifier :: classifier where
  "failing_classifier =
     \<lparr> compareText = (\<lambda>a b. Inl ClassifierUnavailable),
       compareImages = (\<lambda>a b. Inl ClassifierUnavailable),
       compareCategory = (\<lambda>a b. Inl ClassifierUnavailable),
       askDepartment = (\<lambda>d. Inl ClassifierUnavailable),
       askPriority = (\<lambda>d. Inl ClassifierUnavailable),
       askComplaintType = (\<lambda>d. Inl ClassifierUnavailable),
       askEthicalScore = (\<lambda>m. Inl ClassifierUnavailable) \<rparr>"

definition wordy_classifier :: classifier where
  "wordy_classifier = failing_classifier \<lparr> askEthicalScore := (\<lambda>m. Inr ''n/a'') \<rparr>"

definition example_semantic :: "real \<Rightarrow> semantic_analysis" where
  "example_semantic x =
     \<lparr> score = x, reasoning = ''same problem'', problemMatch = True, severityMatch = True,
       infrastructureMatch = False \<rparr>"

definition example_location_near :: location_analysis where
  "example_location_near =
     \<lparr> score = 0.95, reasoning = ''Very close proximity'', distance = Some 0,
       withinProximity = True, addressSimilarity = Some 0 \<rparr>"

definition example_image_missing :: image_analysis where
  "example_image_missing =
     \<lparr> score = 0, reasoning = ''One or both images missing'', sameLocation = None,
       sameProblem = None, visualMatch = False \<rparr>"

definition example_temporal :: temporal_analysis where
  "example_temporal = \<lparr> score = 0.1, reasoning = ''Old complaint'', hoursDiff = None \<rparr>"

definition example_type_analysis :: type_analysis where
  "example_type_analysis =
     \<lparr> score = 1, sameType = True, newType = ''water_supply'', existingType = ''water_supply'' \<rparr>"

definition example_citizen :: citizen where
  "example_citizen = \<lparr> ethicalScore = 7.5, totalMessages = 10, complaintsCount = 2 \<rparr>"

definition example_citizens :: store where
  "example_citizens =
     \<lparr> complaints = [], tickets = [], citizens = [(''919876543210'', example_citizen)] \<rparr>"

definition example_ai :: ai_service where
  "example_ai = aiService example_classifier 5000"

definition example_geocode :: "real \<Rightarrow> real \<Rightarrow> string" where
  "example_geocode lat lon = ''Main Signal, Pimpri''"

definition example_location :: geo_location where
  "example_location = \<lparr> latitude = 18.6, longitude = 73.8, address = None \<rparr>"

definition example_far_location :: geo_location where
  "example_far_location = \<lparr> latitude = 19.6, longitude = 73.8, address = None \<rparr>"

definition example_requests :: "request list" where
  "example_requests =
     [CreateDraft example_ai 1000 ''PCMC-A'' example_text_A ''9000000001'' None,
      Confirm example_geocode 2000 ''TICKET0A'' ''PCMC-A'' example_location,
      CreateDraft example_ai 3000 ''PCMC-B'' example_text_B ''9000000002'' (Some ''b.jpg''),
      Confirm example_geocode 4000 ''TICKET0B'' ''PCMC-B'' example_far_location]"

definition example_store :: store where
  "example_store = foldl serve empty_store example_requests"

definition example_complaint_A :: complaint where
  "example_complaint_A =
     \<lparr> description = example_text_A, department = ''Water Supply'',
       priority = ''high'', category = ''Water Supply Issues'', createdBy = ''919000000001'',
       createdAt = 1000, updatedAt = 2000, followUpUsers = [],
       complaint_id = ''PCMC-A'', status = Active, confirmedAt = Some 2000,
       cancelledAt = None, estimatedResolutionTime = 12,
       location = Some (example_location \<lparr> address := Some ''Main Signal, Pimpri'' \<rparr>),
       imageUrl = None, requiresLocationSharing = False, ticketId = Some ''TICKET0A'',
       workflow = \<lparr> completionPercentage = 60, step = ''confirmed'',
                    nextAction = ''assign_department'' \<rparr> \<rparr>"

definition example_complaint_B :: complaint where
  "example_complaint_B =
     \<lparr> description = example_text_B, department = ''Water Supply'',
       priority = ''high'', category = ''Water Supply Issues'', createdBy = ''919000000002'',
       createdAt = 3000, updatedAt = 4000, followUpUsers = [],
       complaint_id = ''PCMC-B'', status = Active, confirmedAt = Some 4000,
       cancelledAt = None, estimatedResolutionTime = 12,
       location = Some (example_far_location \<lparr> address := Some ''Main Signal, Pimpri'' \<rparr>),
       imageUrl = Some ''b.jpg'', requiresLocationSharing = False, ticketId = Some ''TICKET0B'',
       workflow = \<lparr> completionPercentage = 60, step = ''confirmed'',
                    nextAction = ''assign_department'' \<rparr> \<rparr>"

definition example_ticket_A :: ticket where
  "example_ticket_A =
     \<lparr> description = example_text_A, department = ''Water Supply'',
       priority = ''high'', category = ''Water Supply Issues'', createdBy = ''919000000001'',
       createdAt = 2000, updatedAt = 2000, followUpUsers = [''919000000001''],
       tk_ticketId = ''TICKET0A'', tk_complaintId = ''PCMC-A'', tk_status = TicketOpen,
       tk_location = example_location \<lparr> address := Some ''Main Signal, Pimpri'' \<rparr>,
       tk_estimatedResolution = 2000 + 12 * 60 * 60 * 1000, tk_assignedTo = None,
       tk_updates = [],
       tk_workflow = \<lparr> completionPercentage = 70, currentStep = ''ticket_created'',
                       nextStep = ''department_assignment'' \<rparr> \<rparr>"

definition example_ticket_B :: ticket where
  "example_ticket_B =
     \<lparr> description = example_text_B, department = ''Water Supply'',
       priority = ''high'', category = ''Water Supply Issues'', createdBy = ''919000000002'',
       createdAt = 4000, updatedAt = 4000, followUpUsers = [''919000000002''],
       tk_ticketId = ''TICKET0B'', tk_complaintId = ''PCMC-B'', tk_status = TicketOpen,
       tk_location = example_far_location \<lparr> address := Some ''Main Signal, Pimpri'' \<rparr>,
       tk_estimatedResolution = 4000 + 12 * 60 * 60 * 1000, tk_assignedTo = None,
       tk_updates = [],
       tk_workflow = \<lparr> completionPercentage = 70, currentStep = ''ticket_created'',
                       nextStep = ''department_assignment'' \<rparr> \<rparr>"

definition example_lifecycle :: "request list" where
  "example_lifecycle =
     [CreateDraft example_ai 1000 ''PCMC-A'' example_text_A ''9000000001'' None,
      Confirm example_geocode 2000 ''TICKET0A'' ''PCMC-A'' example_location,
      Cancel 3000 ''PCMC-A'',
      Confirm example_geocode 4000 ''TICKET0C'' ''PCMC-A'' example_location,
      Cancel 5000 ''PCMC-A'']"

definition example_far :: location_analysis where
  "example_far =
     \<lparr> score = 0, reasoning = ''Different areas'',
       distance = Some (calculateDistance 18.6 73.8 19.6 73.8),
       withinProximity = False, addressSimilarity = Some 0 \<rparr>"

definition example_image_match :: image_analysis where
  "example_image_match =
     \<lparr> score = 1, reasoning = ''same place'', sameLocation = Some True,
       sameProblem = Some True, visualMatch = True \<rparr>"

definition example_similarity_A :: similarity where
  "example_similarity_A =
     \<lparr> sim_score = 0.555, isDuplicate = True,
       sim_breakdown = Some \<lparr> bd_semantic = example_semantic 0.6,
                               bd_location = example_location_near,
                               bd_image = example_image_missing,
                               bd_temporal = example_temporal,
                               bd_type = example_type_analysis \<rparr>,
       confidence = 0.555 \<rparr>"

definition example_similarity_B :: "image_analysis \<Rightarrow> real \<Rightarrow> real \<Rightarrow> similarity" where
  "example_similarity_B img_analysis aggregate conf =
     \<lparr> sim_score = aggregate, isDuplicate = False,
       sim_breakdown = Some \<lparr> bd_semantic = example_semantic 1,
                               bd_location = example_far,
                               bd_image = img_analysis,
                               bd_temporal = example_temporal,
                               bd_type = example_type_analysis \<rparr>,
       confidence = conf \<rparr>"

section \<open>Properties of the similarity engine\<close>

subsection \<open>The analyzers always return\<close>

lemma set_trim: "x \<in> set (trim s) \<Longrightarrow> x \<in> set s"
  unfolding trim_def by (auto dest!: set_dropWhileD)

lemma analyzeSemanticSimilarity_returns: "\<exists>r. analyzeSemanticSimilarity cls a b = Inr r"
  unfolding analyzeSemanticSimilarity_def try_catch_def bindE_def
  by (simp split: sum.splits)

lemma analyzeLocationProximity_returns: "\<exists>r. analyzeLocationProximity nl el = Inr r"
  unfolding analyzeLocationProximity_def try_catch_def
  by (simp split: option.splits prod.splits add: Let_def)

lemma analyzeImageSimilarity_returns: "\<exists>r. analyzeImageSimilarity cls ni ei = Inr r"
  unfolding analyzeImageSimilarity_def try_catch_def bindE_def
  by (simp split: sum.splits)

lemma analyzeTemporalRelevance_returns: "\<exists>r. analyzeTemporalRelevance now d = Inr r"
  unfolding analyzeTemporalRelevance_def try_catch_def bindE_def
  by (simp split: sum.splits prod.splits add: Let_def)

lemma analyzeComplaintType_returns: "\<exists>r. analyzeComplaintType cls a b = Inr r"
  unfolding analyzeComplaintType_def try_catch_def bindE_def
  by (simp split: sum.splits)

lemma checkComplaintSimilarity_unfold:
  assumes "analyzeSemanticSimilarity cls a b = Inr s"
    and "analyzeLocationProximity nl el = Inr l"
    and "analyzeImageSimilarity cls ni ei = Inr i"
    and "analyzeTemporalRelevance now Undefined = Inr t"
    and "analyzeComplaintType cls a b = Inr c"
  shows "checkComplaintSimilarity cls now a b nl el ni ei =
           Inr \<lparr> sim_score = finalScore_of s l i t c,
                 isDuplicate = decideDuplicateStatus (finalScore_of s l i t c) s l i,
                 sim_breakdown = Some \<lparr> bd_semantic = s, bd_location = l, bd_image = i,
                                         bd_temporal = t, bd_type = c \<rparr>,
                 confidence = calculateConfidence (finalScore_of s l i t c) s l i \<rparr>"
  unfolding checkComplaintSimilarity_def using assms
  by (simp add: try_catch_def bindE_def Let_def)

lemma example_semantic_B:
  "analyzeSemanticSimilarity example_classifier example_new_text example_text_B =
     Inr \<lparr> score = 1, reasoning = ''same problem'', problemMatch = True, severityMatch = True,
           infrastructureMatch = False \<rparr>"
  by (simp add: analyzeSemanticSimilarity_def example_classifier_def try_catch_def bindE_def
      num_or_def str_or_def bool_or_false_def example_text_A_def example_text_B_def)

lemma example_semantic_A:
  "analyzeSemanticSimilarity example_classifier example_new_text example_text_A =
     Inr \<lparr> score = 0.6, reasoning = ''same problem'', problemMatch = True, severityMatch = True,
           infrastructureMatch = False \<rparr>"
  by (simp add: analyzeSemanticSimilarity_def example_classifier_def try_catch_def bindE_def
      num_or_def str_or_def bool_or_false_def)

lemma example_type:
  "analyzeComplaintType example_classifier a b =
     Inr \<lparr> score = 1, sameType = True, newType = ''water_supply'',
           existingType = ''water_supply'' \<rparr>"
  by (simp add: analyzeComplaintType_def example_classifier_def try_catch_def bindE_def
      num_or_def str_or_def bool_or_false_def)

lemma location_missing:
  "nl = None \<or> el = None \<Longrightarrow>
   analyzeLocationProximity nl el =
     Inr \<lparr> score = 0, reasoning = ''One or both locations missing'', distance = None,
           withinProximity = False, addressSimilarity = None \<rparr>"
  by (auto simp: analyzeLocationProximity_def try_catch_def split: option.splits)

lemma image_missing:
  "missing_url ni \<or> missing_url ei \<Longrightarrow>
   analyzeImageSimilarity cls ni ei =
     Inr \<lparr> score = 0, reasoning = ''One or both images missing'', sameLocation = None,
           sameProblem = None, visualMatch = False \<rparr>"
  by (auto simp: analyzeImageSimilarity_def try_catch_def)

lemma temporal_undefined:
  "analyzeTemporalRelevance now Undefined =
     Inr \<lparr> score = 0.1, reasoning = ''Old complaint'', hoursDiff = None \<rparr>"
  by (simp add: analyzeTemporalRelevance_def try_catch_def bindE_def hours_since_def nan_le_def)

lemma temporal_throwing:
  "analyzeTemporalRelevance now ThrowingDate =
     Inr \<lparr> score = 0.5, reasoning = ''Date analysis failed'', hoursDiff = None \<rparr>"
  by (simp add: analyzeTemporalRelevance_def try_catch_def bindE_def hours_since_def)

lemma text_failed:
  "compareText cls a b = Inl e \<Longrightarrow>
   analyzeSemanticSimilarity cls a b =
     Inr \<lparr> score = 0, reasoning = ''Analysis failed'', problemMatch = False,
           severityMatch = False, infrastructureMatch = False \<rparr>"
  by (simp add: analyzeSemanticSimilarity_def try_catch_def bindE_def)

lemma image_failed:
  "\<not> missing_url ni \<Longrightarrow> \<not> missing_url ei \<Longrightarrow> compareImages cls (the ni) (the ei) = Inl e \<Longrightarrow>
   analyzeImageSimilarity cls ni ei =
     Inr \<lparr> score = 0, reasoning = ''Image analysis failed'', sameLocation = None,
           sameProblem = None, visualMatch = False \<rparr>"
  by (simp add: analyzeImageSimilarity_def try_catch_def bindE_def)

lemma type_failed:
  "compareCategory cls a b = Inl e \<Longrightarrow>
   analyzeComplaintType cls a b =
     Inr \<lparr> score = 0, sameType = False, newType = ''unknown'', existingType = ''unknown'' \<rparr>"
  by (simp add: analyzeComplaintType_def try_catch_def bindE_def)

lemma checkComplaintSimilarity_returns:
  "\<exists>r bd. checkComplaintSimilarity cls now a b nl el ni ei = Inr r \<and> sim_breakdown r = Some bd"
proof -
  obtain s where s: "analyzeSemanticSimilarity cls a b = Inr s"
    using analyzeSemanticSimilarity_returns by blast
  obtain l where l: "analyzeLocationProximity nl el = Inr l"
    using analyzeLocationProximity_returns by blast
  obtain i where i: "analyzeImageSimilarity cls ni ei = Inr i"
    using analyzeImageSimilarity_returns by blast
  obtain t where t: "analyzeTemporalRelevance now Undefined = Inr t"
    using analyzeTemporalRelevance_returns by blast
  obtain c where c: "analyzeComplaintType cls a b = Inr c"
    using analyzeComplaintType_returns by blast
  show ?thesis
    unfolding checkComplaintSimilarity_unfold [OF s l i t c] by simp
qed

lemma decideDuplicateStatus_iff:
  "decideDuplicateStatus finalScore semantic loc img \<longleftrightarrow>
     finalScore \<ge> 0.8 \<or>
     (finalScore \<ge> 0.75 \<and> withinProximity loc) \<or>
     (score semantic \<ge> 0.85 \<and> score loc \<ge> 0.7) \<or>
     (score loc \<ge> 0.9 \<and> score semantic \<ge> 0.6) \<or>
     (score img \<ge> 0.8 \<and> score loc \<ge> 0.6)"
  unfolding decideDuplicateStatus_def by auto

lemma finalScore_of_mono:
  assumes "score s \<le> score s'" "score l \<le> score l'" "score i \<le> score i'"
    "score t \<le> score t'" "score c \<le> score c'"
  shows "finalScore_of s l i t c \<le> finalScore_of s' l' i' t' c'"
  using assms by (simp add: finalScore_of_def similarity_weights_def)

subsection \<open>The duplicate decision\<close>

text \<open>
  Claim C6. For every aggregate score and every sub-score breakdown, the duplicate verdict
  of decideDuplicateStatus is true exactly when one of the six rules holds: aggregate at
  least 0.85; aggregate at least 0.75 and the location within proximity; text at least 0.85
  and location at least 0.70; location at least 0.90 and text at least 0.60; image at least
  0.80 and location at least 0.60; aggregate at least 0.80.
\<close>

theorem decideDuplicateStatus_rules:
  "decideDuplicateStatus finalScore semantic loc img =
     (finalScore \<ge> 0.85 \<or>
      (finalScore \<ge> 0.75 \<and> withinProximity loc) \<or>
      (score semantic \<ge> 0.85 \<and> score loc \<ge> 0.7) \<or>
      (score loc \<ge> 0.9 \<and> score semantic \<ge> 0.6) \<or>
      (score img \<ge> 0.8 \<and> score loc \<ge> 0.6) \<or>
      finalScore \<ge> 0.8)"
  unfolding decideDuplicateStatus_def by auto

text \<open>
  Claim C7. decideDuplicateStatus is monotonic: when the sub-scores are raised (any one of
  them, the others held fixed; here any number of them at once), the weighted aggregate is
  recomputed from them and withinProximity is unchanged, a duplicate verdict of true stays
  true.
\<close>

theorem decideDuplicateStatus_monotonic:
  assumes "score s \<le> score s'" "score l \<le> score l'" "score i \<le> score i'"
    "score t \<le> score t'" "score c \<le> score c'" "withinProximity l' = withinProximity l"
    and "decideDuplicateStatus (finalScore_of s l i t c) s l i"
  shows "decideDuplicateStatus (finalScore_of s' l' i' t' c') s' l' i'"
proof -
  have le: "finalScore_of s l i t c \<le> finalScore_of s' l' i' t' c'"
    using assms(1-5) by (rule finalScore_of_mono)
  show ?thesis
    using assms le unfolding decideDuplicateStatus_iff by auto
qed

theorem decideDuplicateStatus_monotonic_witness:
  "decideDuplicateStatus
     (finalScore_of (example_semantic 0.6) example_location_near example_image_missing
        example_temporal example_type_analysis)
     (example_semantic 0.6) example_location_near example_image_missing \<and>
   decideDuplicateStatus
     (finalScore_of (example_semantic 0.9) example_location_near example_image_missing
        example_temporal example_type_analysis)
     (example_semantic 0.9) example_location_near example_image_missing"
proof -
  have before: "decideDuplicateStatus
     (finalScore_of (example_semantic 0.6) example_location_near example_image_missing
        example_temporal example_type_analysis)
     (example_semantic 0.6) example_location_near example_image_missing"
    by (simp add: decideDuplicateStatus_iff example_semantic_def example_location_near_def)
  have raised: "score (example_semantic 0.6) \<le> score (example_semantic 0.9)"
    by (simp add: example_semantic_def)
  have after: "decideDuplicateStatus
     (finalScore_of (example_semantic 0.9) example_location_near example_image_missing
        example_temporal example_type_analysis)
     (example_semantic 0.9) example_location_near example_image_missing"
    by (rule decideDuplicateStatus_monotonic [OF raised order_refl order_refl order_refl
          order_refl refl before])
  from before after show ?thesis by (rule conjI)
qed

subsection \<open>The weighted aggregate\<close>

text \<open>
  Claim C8. The evaluation always returns, and the score it reports is
  0.35 text + 0.30 location + 0.20 image + 0.10 recency + 0.05 category of the five
  analyzers' results; the weights sum to 1; when every sub-score lies between 0 and 1, so
  does the aggregate.
\<close>

theorem checkComplaintSimilarity_weighted_sum:
  "\<exists>r bd.
     checkComplaintSimilarity cls now a b nl el ni ei = Inr r \<and>
     sim_breakdown r = Some bd \<and>
     analyzeSemanticSimilarity cls a b = Inr (bd_semantic bd) \<and>
     analyzeLocationProximity nl el = Inr (bd_location bd) \<and>
     analyzeImageSimilarity cls ni ei = Inr (bd_image bd) \<and>
     analyzeTemporalRelevance now Undefined = Inr (bd_temporal bd) \<and>
     analyzeComplaintType cls a b = Inr (bd_type bd) \<and>
     sim_score r = 0.35 * score (bd_semantic bd) + 0.30 * score (bd_location bd) +
                   0.20 * score (bd_image bd) + 0.10 * score (bd_temporal bd) +
                   0.05 * score (bd_type bd) \<and>
     w_semantic similarity_weights + w_location similarity_weights + w_image similarity_weights +
       w_temporal similarity_weights + w_type similarity_weights = 1 \<and>
     (0 \<le> score (bd_semantic bd) \<and> score (bd_semantic bd) \<le> 1 \<and>
      0 \<le> score (bd_location bd) \<and> score (bd_location bd) \<le> 1 \<and>
      0 \<le> score (bd_image bd) \<and> score (bd_image bd) \<le> 1 \<and>
      0 \<le> score (bd_temporal bd) \<and> score (bd_temporal bd) \<le> 1 \<and>
      0 \<le> score (bd_type bd) \<and> score (bd_type bd) \<le> 1
      \<longrightarrow> 0 \<le> sim_score r \<and> sim_score r \<le> 1)"
proof -
  obtain s where s: "analyzeSemanticSimilarity cls a b = Inr s"
    using analyzeSemanticSimilarity_returns by blast
  obtain l where l: "analyzeLocationProximity nl el = Inr l"
    using analyzeLocationProximity_returns by blast
  obtain i where i: "analyzeImageSimilarity cls ni ei = Inr i"
    using analyzeImageSimilarity_returns by blast
  obtain t where t: "analyzeTemporalRelevance now Undefined = Inr t"
    using analyzeTemporalRelevance_returns by blast
  obtain c where c: "analyzeComplaintType cls a b = Inr c"
    using analyzeComplaintType_returns by blast
  let ?bd = "\<lparr> bd_semantic = s, bd_location = l, bd_image = i, bd_temporal = t, bd_type = c \<rparr>"
  let ?r = "\<lparr> sim_score = finalScore_of s l i t c,
              isDuplicate = decideDuplicateStatus (finalScore_of s l i t c) s l i,
              sim_breakdown = Some ?bd,
              confidence = calculateConfidence (finalScore_of s l i t c) s l i \<rparr>"
  have r: "checkComplaintSimilarity cls now a b nl el ni ei = Inr ?r"
    by (rule checkComplaintSimilarity_unfold [OF s l i t c])
  have sum: "sim_score ?r = 0.35 * score s + 0.30 * score l + 0.20 * score i +
                             0.10 * score t + 0.05 * score c"
    by (simp add: finalScore_of_def similarity_weights_def)
  have w: "w_semantic similarity_weights + w_location similarity_weights +
           w_image similarity_weights + w_temporal similarity_weights +
           w_type similarity_weights = 1"
    by (simp add: similarity_weights_def)
  have bound: "0 \<le> score s \<and> score s \<le> 1 \<and> 0 \<le> score l \<and> score l \<le> 1 \<and>
               0 \<le> score i \<and> score i \<le> 1 \<and> 0 \<le> score t \<and> score t \<le> 1 \<and>
               0 \<le> score c \<and> score c \<le> 1 \<longrightarrow> 0 \<le> sim_score ?r \<and> sim_score ?r \<le> 1"
    unfolding sum by simp
  show ?thesis
    apply (rule exI [of _ ?r])
    apply (rule exI [of _ ?bd])
    using r s l i t c sum w bound by simp
qed

theorem checkComplaintSimilarity_weighted_sum_witness:
  "\<exists>r. checkComplaintSimilarity example_classifier 0 example_new_text example_text_B
          None None None None = Inr r \<and>
        sim_score r = 0.41 \<and> 0 \<le> sim_score r \<and> sim_score r \<le> 1"
proof -
  obtain r and bd :: breakdown where
    r: "checkComplaintSimilarity example_classifier 0 example_new_text example_text_B
          None None None None = Inr r"
    and s: "analyzeSemanticSimilarity example_classifier example_new_text example_text_B =
          Inr (bd_semantic bd)"
    and l: "analyzeLocationProximity None None = Inr (bd_location bd)"
    and i: "analyzeImageSimilarity example_classifier None None = Inr (bd_image bd)"
    and t: "analyzeTemporalRelevance 0 Undefined = Inr (bd_temporal bd)"
    and c: "analyzeComplaintType example_classifier example_new_text example_text_B =
          Inr (bd_type bd)"
    and sum: "sim_score r = 0.35 * score (bd_semantic bd) + 0.30 * score (bd_location bd) +
                   0.20 * score (bd_image bd) + 0.10 * score (bd_temporal bd) +
                   0.05 * score (bd_type bd)"
    and bound: "0 \<le> score (bd_semantic bd) \<and> score (bd_semantic bd) \<le> 1 \<and>
      0 \<le> score (bd_location bd) \<and> score (bd_location bd) \<le> 1 \<and>
      0 \<le> score (bd_image bd) \<and> score (bd_image bd) \<le> 1 \<and>
      0 \<le> score (bd_temporal bd) \<and> score (bd_temporal bd) \<le> 1 \<and>
      0 \<le> score (bd_type bd) \<and> score (bd_type bd) \<le> 1
      \<longrightarrow> 0 \<le> sim_score r \<and> sim_score r \<le> 1"
    using checkComplaintSimilarity_weighted_sum
      [of example_classifier 0 example_new_text example_text_B None None None None]
    by (elim exE conjE) (rule that; assumption)
  have s1: "score (bd_semantic bd) = 1"
    using s unfolding example_semantic_B by (auto dest: arg_cong [where f = score])
  have l1: "score (bd_location bd) = 0"
    using l unfolding location_missing [of None None, simplified]
    by (auto dest: arg_cong [where f = score])
  have i1: "score (bd_image bd) = 0"
    using i image_missing [of None None example_classifier]
    by (auto simp: missing_url_def dest: arg_cong [where f = score])
  have t1: "score (bd_temporal bd) = 0.1"
    using t unfolding temporal_undefined by (auto dest: arg_cong [where f = score])
  have c1: "score (bd_type bd) = 1"
    using c unfolding example_type by (auto dest: arg_cong [where f = score])
  have v: "sim_score r = 0.41"
    unfolding sum s1 l1 i1 t1 c1 by simp
  have "0 \<le> sim_score r \<and> sim_score r \<le> 1"
    using bound s1 l1 i1 t1 c1 by simp
  with r v show ?thesis by blast
qed

subsection \<open>Degradation of the analyzers\<close>

text \<open>
  Claim C4, as the code has it. None of the five analyzers throws, so the evaluation
  always returns with a full breakdown. On a failure of the classifier the text, image and
  category analyzers give score 0 (with the rationale \<open>Analysis failed\<close> and
  \<open>Image analysis failed\<close>; the category result has no rationale, it reports
  \<open>sameType\<close> false and both types unknown). The location and the image analyzer give
  score 0 with a "missing" rationale when one of their inputs is missing. The recency
  analyzer gives 0.1 for an absent date and 0.5 with \<open>Date analysis failed\<close> on a failure.
\<close>

theorem analyzers_degrade:
  "(\<exists>r. analyzeSemanticSimilarity cls a b = Inr r) \<and>
   (\<exists>r. analyzeLocationProximity nl el = Inr r) \<and>
   (\<exists>r. analyzeImageSimilarity cls ni ei = Inr r) \<and>
   (\<exists>r. analyzeTemporalRelevance now d = Inr r) \<and>
   (\<exists>r. analyzeComplaintType cls a b = Inr r) \<and>
   (\<exists>r bd. checkComplaintSimilarity cls now a b nl el ni ei = Inr r \<and> sim_breakdown r = Some bd) \<and>
   (\<forall>e. compareText cls a b = Inl e \<longrightarrow>
      analyzeSemanticSimilarity cls a b =
        Inr \<lparr> score = 0, reasoning = ''Analysis failed'', problemMatch = False,
              severityMatch = False, infrastructureMatch = False \<rparr>) \<and>
   (nl = None \<or> el = None \<longrightarrow>
      analyzeLocationProximity nl el =
        Inr \<lparr> score = 0, reasoning = ''One or both locations missing'', distance = None,
              withinProximity = False, addressSimilarity = None \<rparr>) \<and>
   (missing_url ni \<or> missing_url ei \<longrightarrow>
      analyzeImageSimilarity cls ni ei =
        Inr \<lparr> score = 0, reasoning = ''One or both images missing'', sameLocation = None,
              sameProblem = None, visualMatch = False \<rparr>) \<and>
   (\<forall>e. \<not> missing_url ni \<and> \<not> missing_url ei \<and> compareImages cls (the ni) (the ei) = Inl e \<longrightarrow>
      analyzeImageSimilarity cls ni ei =
        Inr \<lparr> score = 0, reasoning = ''Image analysis failed'', sameLocation = None,
              sameProblem = None, visualMatch = False \<rparr>) \<and>
   (\<forall>e. compareCategory cls a b = Inl e \<longrightarrow>
      analyzeComplaintType cls a b =
        Inr \<lparr> score = 0, sameType = False, newType = ''unknown'',
              existingType = ''unknown'' \<rparr>) \<and>
   analyzeTemporalRelevance now Undefined =
     Inr \<lparr> score = 0.1, reasoning = ''Old complaint'', hoursDiff = None \<rparr> \<and>
   analyzeTemporalRelevance now ThrowingDate =
     Inr \<lparr> score = 0.5, reasoning = ''Date analysis failed'', hoursDiff = None \<rparr>"
  using analyzeSemanticSimilarity_returns [of cls a b]
    analyzeLocationProximity_returns [of nl el]
    analyzeImageSimilarity_returns [of cls ni ei]
    analyzeTemporalRelevance_returns [of now d]
    analyzeComplaintType_returns [of cls a b]
    checkComplaintSimilarity_returns [of cls now a b nl el ni ei]
    text_failed [of cls a b] location_missing [of nl el] image_missing [of ni ei cls]
    image_failed [of ni ei cls] type_failed [of cls a b]
    temporal_undefined [of now] temporal_throwing [of now]
  by (intro conjI allI impI; (elim conjE)?; assumption?; blast?)

theorem analyzers_degrade_witness:
  "analyzeSemanticSimilarity failing_classifier ''a'' ''b'' =
     Inr \<lparr> score = 0, reasoning = ''Analysis failed'', problemMatch = False,
           severityMatch = False, infrastructureMatch = False \<rparr> \<and>
   analyzeLocationProximity None None =
     Inr \<lparr> score = 0, reasoning = ''One or both locations missing'', distance = None,
           withinProximity = False, addressSimilarity = None \<rparr> \<and>
   analyzeImageSimilarity failing_classifier None None =
     Inr \<lparr> score = 0, reasoning = ''One or both images missing'', sameLocation = None,
           sameProblem = None, visualMatch = False \<rparr> \<and>
   analyzeImageSimilarity failing_classifier (Some ''a.jpg'') (Some ''b.jpg'') =
     Inr \<lparr> score = 0, reasoning = ''Image analysis failed'', sameLocation = None,
           sameProblem = None, visualMatch = False \<rparr> \<and>
   analyzeComplaintType failing_classifier ''a'' ''b'' =
     Inr \<lparr> score = 0, sameType = False, newType = ''unknown'', existingType = ''unknown'' \<rparr>"
proof -
  note missing = analyzers_degrade [of failing_classifier "''a''" "''b''" None None None None 0 Undefined]
  note present = analyzers_degrade [of failing_classifier "''a''" "''b''" None None
      "Some ''a.jpg''" "Some ''b.jpg''" 0 Undefined]
  have 1: "analyzeSemanticSimilarity failing_classifier ''a'' ''b'' =
     Inr \<lparr> score = 0, reasoning = ''Analysis failed'', problemMatch = False,
           severityMatch = False, infrastructureMatch = False \<rparr>"
    using missing by (simp add: failing_classifier_def)
  have 2: "analyzeLocationProximity None None =
     Inr \<lparr> score = 0, reasoning = ''One or both locations missing'', distance = None,
           withinProximity = False, addressSimilarity = None \<rparr>"
    using missing by simp
  have 3: "analyzeImageSimilarity failing_classifier None None =
     Inr \<lparr> score = 0, reasoning = ''One or both images missing'', sameLocation = None,
           sameProblem = None, visualMatch = False \<rparr>"
    using missing by (simp add: missing_url_def)
  have 4: "analyzeImageSimilarity failing_classifier (Some ''a.jpg'') (Some ''b.jpg'') =
     Inr \<lparr> score = 0, reasoning = ''Image analysis failed'', sameLocation = None,
           sameProblem = None, visualMatch = False \<rparr>"
    using present by (simp add: missing_url_def failing_classifier_def)
  have 5: "analyzeComplaintType failing_classifier ''a'' ''b'' =
     Inr \<lparr> score = 0, sameType = False, newType = ''unknown'', existingType = ''unknown'' \<rparr>"
    using missing by (simp add: failing_classifier_def)
  from 1 2 3 4 5 show ?thesis by blast
qed

text \<open>
  Claim C4 as stated asks score 0 of the recency analyzer too. It gives 0.1 on an absent
  date and 0.5 when the date conversion throws.
\<close>

theorem analyzeTemporalRelevance_counterexample:
  "analyzeTemporalRelevance 0 Undefined =
     Inr \<lparr> score = 0.1, reasoning = ''Old complaint'', hoursDiff = None \<rparr> \<and>
   analyzeTemporalRelevance 0 ThrowingDate =
     Inr \<lparr> score = 0.5, reasoning = ''Date analysis failed'', hoursDiff = None \<rparr> \<and>
   \<not> (\<exists>r. analyzeTemporalRelevance 0 Undefined = Inr r \<and> score r = 0) \<and>
   \<not> (\<exists>r. analyzeTemporalRelevance 0 ThrowingDate = Inr r \<and> score r = 0)"
  unfolding temporal_undefined temporal_throwing by simp

subsection \<open>The per-message ethical score\<close>

text \<open>
  Claim C10. For every message, calculateEthicalScore returns an integer between 1 and 10;
  when the classifier call fails, or its reply has no digit, it returns 7.
\<close>

theorem calculateEthicalScore_range:
  "(\<exists>n. calculateEthicalScore cls m = Inr n \<and> 1 \<le> n \<and> n \<le> 10) \<and>
   (\<forall>e. askEthicalScore cls m = Inl e \<longrightarrow> calculateEthicalScore cls m = Inr 7) \<and>
   (\<forall>r. askEthicalScore cls m = Inr r \<and> (\<forall>ch \<in> set r. \<not> is_digit ch) \<longrightarrow>
        calculateEthicalScore cls m = Inr 7)"
  unfolding calculateEthicalScore_def try_catch_def bindE_def parseInt_def
  by (auto split: sum.splits option.splits simp: Let_def filter_empty_conv dest: set_trim)

theorem calculateEthicalScore_range_witness:
  "calculateEthicalScore failing_classifier ''hello'' = Inr 7 \<and>
   calculateEthicalScore wordy_classifier ''hello'' = Inr 7 \<and>
   (\<exists>n. calculateEthicalScore example_classifier ''hello'' = Inr n \<and> 1 \<le> n \<and> n \<le> 10)"
proof -
  have f: "askEthicalScore failing_classifier ''hello'' = Inl ClassifierUnavailable"
    by (simp add: failing_classifier_def)
  have w: "askEthicalScore wordy_classifier ''hello'' = Inr ''n/a'' \<and>
           (\<forall>ch \<in> set ''n/a''. \<not> is_digit ch)"
    by (simp add: wordy_classifier_def failing_classifier_def is_digit_def)
  have 1: "calculateEthicalScore failing_classifier ''hello'' = Inr 7"
    using calculateEthicalScore_range [of failing_classifier "''hello''"] f by blast
  have 2: "calculateEthicalScore wordy_classifier ''hello'' = Inr 7"
    using calculateEthicalScore_range [of wordy_classifier "''hello''"] w by blast
  have 3: "\<exists>n. calculateEthicalScore example_classifier ''hello'' = Inr n \<and> 1 \<le> n \<and> n \<le> 10"
    using calculateEthicalScore_range [of example_classifier "''hello''"] by blast
  from 1 2 3 show ?thesis by blast
qed

section \<open>Properties of the repository\<close>

subsection \<open>Reading and writing documents\<close>

lemma doc_get_set: "doc_get (doc_set coll k v) k' = (if k' = k then Some v else doc_get coll k')"
  by (simp add: doc_get_def doc_set_def update_conv')

lemma doc_update_None: "doc_get coll k = None \<Longrightarrow> doc_update coll k f = Inl NotFound"
  by (simp add: doc_get_def doc_update_def)

lemma doc_update_Some:
  "doc_get coll k = Some v \<Longrightarrow> doc_update coll k f = Inr (doc_set coll k (f v))"
  by (simp add: doc_get_def doc_update_def doc_set_def)

lemma set_doc_set: "set (doc_set coll k v) \<subseteq> insert (k, v) (set coll)"
  unfolding doc_set_def by (induction coll) auto

subsection \<open>The example store\<close>

lemma example_ai_categories:
  "ai_categorizeDepartment example_ai d = Inr ''Water Supply''"
  "ai_assessComplaintPriority example_ai d = Inr ''high''"
  "ai_categorizeComplaintType example_ai d = Inr ''Water Supply Issues''"
  by (simp_all add: example_ai_def aiService_def categorizeDepartment_def
      assessComplaintPriority_def categorizeComplaintType_def example_classifier_def
      try_catch_def bindE_def trim_def is_space_def toLowerCase_def validDepartments_def
      validPriorities_def validTypes_def)

lemma example_resolution_time: "calculateEstimatedResolutionTime ''Water Supply'' ''high'' = 12"
  by (simp add: calculateEstimatedResolutionTime_def baseTimes_def priorityMultipliers_def)

lemma example_phones:
  "formatPhoneNumber ''9000000001'' = ''919000000001''"
  "formatPhoneNumber ''9000000002'' = ''919000000002''"
  "formatPhoneNumber ''9876543210'' = ''919876543210''"
  by (simp_all add: formatPhoneNumber_def is_digit_def)

lemma example_complaints:
  "complaints example_store = [(''PCMC-A'', example_complaint_A), (''PCMC-B'', example_complaint_B)]"
  by (simp add: example_store_def example_requests_def empty_store_def
      createDraftComplaint_def confirmComplaint_def example_ai_categories example_phones
      example_resolution_time settled_or_def Let_def try_catch_def bindE_def doc_get_def
      doc_set_def doc_update_def createTicketRecord_def updateCitizenComplaintCount_def
      trim_def is_space_def missing_url_def str_or_def example_geocode_def
      example_complaint_A_def example_complaint_B_def example_location_def
      example_far_location_def example_text_A_def example_text_B_def)

lemma example_tickets:
  "tickets example_store = [(''TICKET0A'', example_ticket_A), (''TICKET0B'', example_ticket_B)]"
  by (simp add: example_store_def example_requests_def empty_store_def
      createDraftComplaint_def confirmComplaint_def example_ai_categories example_phones
      example_resolution_time settled_or_def Let_def try_catch_def bindE_def doc_get_def
      doc_set_def doc_update_def createTicketRecord_def updateCitizenComplaintCount_def
      trim_def is_space_def missing_url_def str_or_def example_geocode_def
      example_ticket_A_def example_ticket_B_def example_location_def
      example_far_location_def example_text_A_def example_text_B_def)

lemma example_citizens_empty: "citizens example_store = []"
  by (simp add: example_store_def example_requests_def empty_store_def
      createDraftComplaint_def confirmComplaint_def Let_def try_catch_def bindE_def doc_get_def
      doc_set_def doc_update_def createTicketRecord_def updateCitizenComplaintCount_def)

lemma example_store_eq:
  "example_store =
     \<lparr> complaints = [(''PCMC-A'', example_complaint_A), (''PCMC-B'', example_complaint_B)],
       tickets = [(''TICKET0A'', example_ticket_A), (''TICKET0B'', example_ticket_B)],
       citizens = [] \<rparr>"
  using example_complaints example_tickets example_citizens_empty
  by (cases example_store) simp

subsection \<open>The reputation update\<close>

lemma example_phone: "formatPhoneNumber ''9876543210'' = ''919876543210''"
  by (simp add: formatPhoneNumber_def is_digit_def)

lemma newEthicalScore_formula:
  "newEthicalScore c m =
     reputation_result
       (reputation_formula (if ethicalScore c = 0 then 7.5 else ethicalScore c)
          (if totalMessages c = 0 then 1 else totalMessages c) m)"
  by (simp add: newEthicalScore_def reputation_result_def reputation_formula_def Let_def)

lemma newEthicalScore_bounds: "1 \<le> newEthicalScore c m \<and> newEthicalScore c m \<le> 10"
  by (simp add: newEthicalScore_def Let_def)

lemma map_of_update_same: "map_of (AList.update k v al) k = Some v"
  by (simp add: update_conv')

lemma updateCitizenEthicalScore_stores:
  assumes "doc_get (citizens st) (formatPhoneNumber p) = Some c"
  shows "doc_get (citizens (updateCitizenEthicalScore st p m)) (formatPhoneNumber p) =
           Some (c\<lparr> ethicalScore := newEthicalScore c m \<rparr>)"
  using assms
  by (simp add: updateCitizenEthicalScore_def doc_get_def doc_update_def Let_def update_conv')

lemma sqrt2_bounds: "4 / 3 < sqrt 2" "sqrt 2 < 3 / 2"
  by (rule real_less_rsqrt, simp add: power2_eq_square)
     (rule real_less_lsqrt, simp_all add: power2_eq_square)

lemma first_message_score:
  "newEthicalScore newCitizenData 10 = 9.8"
proof -
  define w where "w = 1 - 1 / sqrt 2"
  have pos: "0 < sqrt 2" by simp
  have u: "2 / 3 < 1 / sqrt 2" "1 / sqrt 2 < 3 / 4"
    using sqrt2_bounds pos by (simp_all add: field_simps)
  have w: "1 / 4 < w" "w < 1 / 3"
    using u by (simp_all add: w_def)
  have decay: "max (1 / 10) (1 / sqrt 2) = 1 / sqrt 2"
    using u by simp
  let ?new = "(7.5 * w + 30) / (w + 3)"
  have lo: "98 \<le> ?new * 10 + 1 / 2"
    using w by (simp add: field_simps)
  have hi: "?new * 10 + 1 / 2 < 99"
    using w by (simp add: field_simps)
  have fl: "\<lfloor>?new * 10 + 1 / 2\<rfloor> = 98"
    using lo hi by (simp add: floor_eq_iff)
  have "newEthicalScore newCitizenData 10 =
          max 1 (min 10 (of_int \<lfloor>?new * 10 + 1 / 2\<rfloor> / 10))"
    using decay
    by (simp add: newEthicalScore_def newCitizenData_def Let_def js_round_def w_def)
  then show ?thesis unfolding fl by simp
qed

lemma first_message_formula:
  "reputation_result (reputation_formula 7.5 0 10) = 10"
  by (simp add: reputation_result_def reputation_formula_def js_round_def)

text \<open>
  Claim C9, as the code has it. The update computes
  newScore = (currentScore weight (1 - decay) + messageScore 3) / (weight (1 - decay) + 3)
  with weight = min(totalMessages, 100) and decay = max(0.1, 1 / sqrt(totalMessages + 1)),
  where totalMessages is the stored count, or 1 when the stored count is 0, and
  currentScore is the stored score, or 7.5 when the stored score is 0; it rounds to one
  decimal, clamps to 1..10 and stores the result, which therefore lies between 1 and 10.
\<close>

theorem updateCitizenEthicalScore_reputation:
  "newEthicalScore c m =
     reputation_result
       (reputation_formula (if ethicalScore c = 0 then 7.5 else ethicalScore c)
          (if totalMessages c = 0 then 1 else totalMessages c) m) \<and>
   1 \<le> newEthicalScore c m \<and> newEthicalScore c m \<le> 10 \<and>
   (doc_get (citizens st) (formatPhoneNumber p) = Some c \<longrightarrow>
      doc_get (citizens (updateCitizenEthicalScore st p m)) (formatPhoneNumber p) =
        Some (c\<lparr> ethicalScore := newEthicalScore c m \<rparr>))"
  using newEthicalScore_formula [of c m] newEthicalScore_bounds [of c m]
    updateCitizenEthicalScore_stores [of st p c m]
  by blast

theorem updateCitizenEthicalScore_reputation_witness:
  "doc_get (citizens (updateCitizenEthicalScore example_citizens ''9876543210'' 10))
       ''919876543210'' =
     Some (example_citizen\<lparr> ethicalScore := newEthicalScore example_citizen 10 \<rparr>) \<and>
   1 \<le> newEthicalScore example_citizen 10 \<and> newEthicalScore example_citizen 10 \<le> 10"
proof -
  have found: "doc_get (citizens example_citizens) (formatPhoneNumber ''9876543210'') =
                 Some example_citizen"
    unfolding example_phone by (simp add: example_citizens_def doc_get_def)
  show ?thesis
    using updateCitizenEthicalScore_reputation
      [of example_citizen 10 example_citizens "''9876543210''"] found
    unfolding example_phone by blast
qed

text \<open>
  Claim C9 as stated takes the formula at every totalMessages count. A reporter's profile
  starts with the count 0; for the first message, scored 10, the formula at the count 0
  gives 10, and the code, which takes the count as 1, stores 9.8.
\<close>

theorem reputation_first_message_counterexample:
  "newEthicalScore newCitizenData 10 = 9.8 \<and>
   reputation_result
     (reputation_formula (ethicalScore newCitizenData) (totalMessages newCitizenData) 10) = 10"
  using first_message_score first_message_formula by (simp add: newCitizenData_def)

subsection \<open>Confirmation and cancellation\<close>

lemma confirmComplaint_NotFound:
  "doc_get (complaints st) cid = None \<Longrightarrow> confirmComplaint st geo now tid cid w = Inl NotFound"
  by (simp add: confirmComplaint_def try_catch_def)

lemma cancelComplaint_NotFound:
  "doc_get (complaints st) cid = None \<Longrightarrow> cancelComplaint st now cid = Inl NotFound"
  by (simp add: cancelComplaint_def try_catch_def bindE_def doc_update_None Let_def)

lemma complaints_createTicketRecord [simp]:
  "complaints (createTicketRecord st now tid cid c l) = complaints st"
  by (simp add: createTicketRecord_def Let_def)

lemma complaints_updateCitizenComplaintCount [simp]:
  "complaints (updateCitizenComplaintCount st p) = complaints st"
  by (simp add: updateCitizenComplaintCount_def split: sum.splits)

lemma tickets_updateCitizenComplaintCount [simp]:
  "tickets (updateCitizenComplaintCount st p) = tickets st"
  by (simp add: updateCitizenComplaintCount_def split: sum.splits)

lemma confirmComplaint_Some:
  assumes "doc_get (complaints st) cid = Some c"
  shows "\<exists>st' c' t.
           confirmComplaint st geo now tid cid w = Inr (tid, st') \<and>
           doc_get (complaints st') cid = Some c' \<and>
           (\<forall>k. k \<noteq> cid \<longrightarrow> doc_get (complaints st') k = doc_get (complaints st) k) \<and>
           status c' = Active \<and> ticketId c' = Some tid \<and>
           completionPercentage (workflow c') = 60 \<and>
           createdBy c' = createdBy c \<and> followUpUsers c' = followUpUsers c \<and>
           doc_get (tickets st') tid = Some t \<and>
           tk_complaintId t = cid \<and> tk_status t = TicketOpen \<and>
           completionPercentage (tk_workflow t) = 70 \<and>
           createdBy t = createdBy c \<and> followUpUsers t = [createdBy c] \<and>
           set (tickets st') \<subseteq> insert (tid, t) (set (tickets st))"
  using assms
  by (simp add: confirmComplaint_def try_catch_def bindE_def doc_update_Some Let_def
      doc_get_set createTicketRecord_def set_doc_set)

lemma cancelComplaint_Some:
  assumes "doc_get (complaints st) cid = Some c"
  shows "\<exists>st' c'.
           cancelComplaint st now cid = Inr st' \<and>
           doc_get (complaints st') cid = Some c' \<and>
           (\<forall>k. k \<noteq> cid \<longrightarrow> doc_get (complaints st') k = doc_get (complaints st) k) \<and>
           status c' = Cancelled \<and> completionPercentage (workflow c') = 0 \<and>
           ticketId c' = ticketId c \<and> tickets st' = tickets st"
  using assms
  by (simp add: cancelComplaint_def try_catch_def bindE_def doc_update_Some Let_def doc_get_set)

text \<open>
  Claim C1, as the code has it. confirmComplaint and cancelComplaint do not look at the
  status. Both fail (not found, the store unchanged) when the complaint id is unknown. On a
  complaint that exists, whatever its status, confirmComplaint returns the newly allocated
  ticket id, sets the complaint active at 60 percent with that ticket id and stores an open
  ticket under it; cancelComplaint sets the complaint cancelled at 0 percent and leaves
  the tickets as they are.
\<close>

theorem confirm_cancel_without_status_guard:
  "(doc_get (complaints st) cid = None \<longrightarrow>
      confirmComplaint st geo now tid cid w = Inl NotFound \<and>
      cancelComplaint st now cid = Inl NotFound) \<and>
   (\<forall>c. doc_get (complaints st) cid = Some c \<longrightarrow>
      (\<exists>st' c' t.
         confirmComplaint st geo now tid cid w = Inr (tid, st') \<and>
         doc_get (complaints st') cid = Some c' \<and>
         status c' = Active \<and> ticketId c' = Some tid \<and>
         completionPercentage (workflow c') = 60 \<and>
         doc_get (tickets st') tid = Some t \<and> tk_complaintId t = cid \<and>
         tk_status t = TicketOpen) \<and>
      (\<exists>st' c'.
         cancelComplaint st now cid = Inr st' \<and>
         doc_get (complaints st') cid = Some c' \<and>
         status c' = Cancelled \<and> completionPercentage (workflow c') = 0 \<and>
         tickets st' = tickets st))"
proof (intro conjI impI allI)
  assume "doc_get (complaints st) cid = None"
  then show "confirmComplaint st geo now tid cid w = Inl NotFound"
    and "cancelComplaint st now cid = Inl NotFound"
    by (rule confirmComplaint_NotFound, rule cancelComplaint_NotFound)
next
  fix c assume c: "doc_get (complaints st) cid = Some c"
  from confirmComplaint_Some [OF c, of geo now tid w]
  show "\<exists>st' c' t.
         confirmComplaint st geo now tid cid w = Inr (tid, st') \<and>
         doc_get (complaints st') cid = Some c' \<and>
         status c' = Active \<and> ticketId c' = Some tid \<and>
         completionPercentage (workflow c') = 60 \<and>
         doc_get (tickets st') tid = Some t \<and> tk_complaintId t = cid \<and>
         tk_status t = TicketOpen"
    by blast
  from cancelComplaint_Some [OF c, of now]
  show "\<exists>st' c'.
         cancelComplaint st now cid = Inr st' \<and>
         doc_get (complaints st') cid = Some c' \<and>
         status c' = Cancelled \<and> completionPercentage (workflow c') = 0 \<and>
         tickets st' = tickets st"
    by blast
qed

theorem confirm_cancel_without_status_guard_witness:
  "confirmComplaint example_store example_geocode 6000 ''TICKET0C'' ''PCMC-X'' example_location =
     Inl NotFound \<and>
   cancelComplaint example_store 6000 ''PCMC-X'' = Inl NotFound \<and>
   (\<exists>st'. confirmComplaint example_store example_geocode 6000 ''TICKET0C'' ''PCMC-A''
            example_location = Inr (''TICKET0C'', st')) \<and>
   (\<exists>st'. cancelComplaint example_store 6000 ''PCMC-A'' = Inr st')"
proof -
  have unknown: "doc_get (complaints example_store) ''PCMC-X'' = None"
    by (simp add: example_complaints doc_get_def)
  have known: "doc_get (complaints example_store) ''PCMC-A'' = Some example_complaint_A"
    by (simp add: example_complaints doc_get_def)
  note at_unknown = confirm_cancel_without_status_guard
    [of example_store "''PCMC-X''" example_geocode 6000 "''TICKET0C''" example_location]
  note at_known = confirm_cancel_without_status_guard
    [of example_store "''PCMC-A''" example_geocode 6000 "''TICKET0C''" example_location]
  from at_unknown unknown
  have 1: "confirmComplaint example_store example_geocode 6000 ''TICKET0C'' ''PCMC-X''
             example_location = Inl NotFound \<and>
           cancelComplaint example_store 6000 ''PCMC-X'' = Inl NotFound"
    by blast
  from at_known known
  have 2: "(\<exists>st'. confirmComplaint example_store example_geocode 6000 ''TICKET0C'' ''PCMC-A''
            example_location = Inr (''TICKET0C'', st')) \<and>
           (\<exists>st'. cancelComplaint example_store 6000 ''PCMC-A'' = Inr st')"
    by blast
  from 1 2 show ?thesis by blast
qed

text \<open>
  Claim C1 as stated asks that both calls be rejected on a complaint that is not a draft.
  Confirming the active complaint PCMC-A of the example store returns a new ticket id and
  leaves two tickets for that complaint; cancelling the cancelled complaint PCMC-B again
  succeeds and stamps it again.
\<close>

theorem confirm_active_cancel_cancelled_counterexample:
  "map_option status (doc_get (complaints example_store) ''PCMC-A'') = Some Active \<and>
   map_sum id fst
     (confirmComplaint example_store example_geocode 6000 ''TICKET0C'' ''PCMC-A''
        example_location) = Inr ''TICKET0C'' \<and>
   map_sum id (map (tk_complaintId \<circ> snd) \<circ> tickets \<circ> snd)
     (confirmComplaint example_store example_geocode 6000 ''TICKET0C'' ''PCMC-A''
        example_location) = Inr [''PCMC-A'', ''PCMC-B'', ''PCMC-A''] \<and>
   map_sum id (map fst \<circ> tickets \<circ> snd)
     (confirmComplaint example_store example_geocode 6000 ''TICKET0C'' ''PCMC-A''
        example_location) = Inr [''TICKET0A'', ''TICKET0B'', ''TICKET0C''] \<and>
   map_option status
     (doc_get (complaints (serve example_store (Cancel 5000 ''PCMC-B''))) ''PCMC-B'') =
     Some Cancelled \<and>
   map_sum id (map (cancelledAt \<circ> snd) \<circ> complaints)
     (cancelComplaint (serve example_store (Cancel 5000 ''PCMC-B'')) 6000 ''PCMC-B'') =
     Inr [None, Some 6000]"
  by (simp add: example_store_eq confirmComplaint_def cancelComplaint_def Let_def try_catch_def
      bindE_def doc_get_def doc_set_def doc_update_def createTicketRecord_def
      updateCitizenComplaintCount_def example_complaint_A_def example_complaint_B_def
      example_ticket_A_def example_ticket_B_def example_phones str_or_def
      example_location_def example_geocode_def)

subsection \<open>Follow-up lists\<close>





lemma addUser_missing:
  "doc_get (complaints st) cid = None \<Longrightarrow> addUserToComplaintFollowUp st now cid p = st"
  by (simp add: addUserToComplaintFollowUp_def doc_update_None Let_def)

lemma addUser_complaints:
  assumes "doc_get (complaints st) cid = Some c"
  shows "complaints (addUserToComplaintFollowUp st now cid p) =
           doc_set (complaints st) cid
             (c\<lparr> followUpUsers := arrayUnion (followUpUsers c) (formatPhoneNumber p),
                 updatedAt := now \<rparr>)"
  using assms
  by (simp add: addUserToComplaintFollowUp_def doc_update_Some Let_def
      split: option.splits prod.splits)

lemma addUser_complaint:
  assumes "doc_get (complaints st) cid = Some c"
  shows "doc_get (complaints (addUserToComplaintFollowUp st now cid p)) k =
           (if k = cid
            then Some (c\<lparr> followUpUsers := arrayUnion (followUpUsers c) (formatPhoneNumber p),
                          updatedAt := now \<rparr>)
            else doc_get (complaints st) k)"
  by (simp add: addUser_complaints [OF assms] doc_get_set)




lemma tickets_createDraft [simp]:
  "tickets (snd (createDraftComplaint st ai now cid d p img)) = tickets st"
  by (simp add: createDraftComplaint_def Let_def)

lemma tickets_rate [simp]: "tickets (updateCitizenEthicalScore st p m) = tickets st"
  by (simp add: updateCitizenEthicalScore_def Let_def split: option.splits sum.splits)

lemma complaints_rate [simp]: "complaints (updateCitizenEthicalScore st p m) = complaints st"
  by (simp add: updateCitizenEthicalScore_def Let_def split: option.splits sum.splits)

lemma checkDuplicate_store:
  "snd (checkDuplicateComplaint st ai now msg p loc img) = st \<or>
   (\<exists>cid. snd (checkDuplicateComplaint st ai now msg p loc img) =
           addUserToComplaintFollowUp st now cid (formatPhoneNumber p))"
  by (auto simp: checkDuplicateComplaint_def Let_def split: prod.splits option.splits)



lemma example_lookup:
  "doc_get (complaints example_store) ''PCMC-A'' = Some example_complaint_A"
  "doc_get (complaints example_store) ''PCMC-B'' = Some example_complaint_B"
  "doc_get (complaints example_store) ''PCMC-C'' = None"
  by (simp_all add: example_complaints doc_get_def)






lemma addUser_citizens [simp]:
  "citizens (addUserToComplaintFollowUp st now cid p) = citizens st"
  by (simp add: addUserToComplaintFollowUp_def Let_def split: sum.splits option.splits prod.splits)




subsection \<open>The workflow percentage\<close>

lemma createDraft_complaint:
  "doc_get (complaints (snd (createDraftComplaint st ai now cid d p img))) k =
     (if k = cid then Some (fst (createDraftComplaint st ai now cid d p img))
      else doc_get (complaints st) k)"
  by (simp add: createDraftComplaint_def Let_def doc_get_set)

lemma createDraft_percentage:
  "completionPercentage (workflow (fst (createDraftComplaint st ai now cid d p img))) = 30"
  by (simp add: createDraftComplaint_def Let_def)

lemma serve_keeps_complaint:
  assumes "doc_get (complaints st) k = Some c" and "\<not> recreates r k"
  shows "\<exists>c'. doc_get (complaints (serve st r)) k = Some c' \<and>
              (workflow c' = workflow c \<or>
               completionPercentage (workflow c') = 60 \<or>
               (cancels r k \<and> completionPercentage (workflow c') = 0))"
proof (cases r)
  case (CreateDraft ai now cid d p img)
  with assms show ?thesis by (simp add: createDraft_complaint)
next
  case (Confirm geo now tid cid w)
  show ?thesis
  proof (cases "doc_get (complaints st) cid")
    case None
    with Confirm assms show ?thesis by (simp add: confirmComplaint_NotFound)
  next
    case (Some d)
    from confirmComplaint_Some [OF Some, of geo now tid w]
    obtain st' c' where "confirmComplaint st geo now tid cid w = Inr (tid, st')"
      and "doc_get (complaints st') cid = Some c'"
      and "\<forall>k. k \<noteq> cid \<longrightarrow> doc_get (complaints st') k = doc_get (complaints st) k"
      and "completionPercentage (workflow c') = 60"
      by blast
    with Confirm assms show ?thesis by (cases "k = cid") auto
  qed
next
  case (Cancel now cid)
  show ?thesis
  proof (cases "doc_get (complaints st) cid")
    case None
    with Cancel assms show ?thesis by (simp add: cancelComplaint_NotFound)
  next
    case (Some d)
    from cancelComplaint_Some [OF Some, of now]
    obtain st' c' where "cancelComplaint st now cid = Inr st'"
      and "doc_get (complaints st') cid = Some c'"
      and "\<forall>k. k \<noteq> cid \<longrightarrow> doc_get (complaints st') k = doc_get (complaints st) k"
      and "completionPercentage (workflow c') = 0"
      by blast
    with Cancel assms show ?thesis by (cases "k = cid") auto
  qed
next
  case (FollowUp now cid p)
  show ?thesis
  proof (cases "doc_get (complaints st) cid")
    case None
    with FollowUp assms show ?thesis by (simp add: addUser_missing)
  next
    case (Some d)
    with FollowUp assms show ?thesis by (auto simp: addUser_complaint)
  qed
next
  case (CheckDuplicate ai now msg p loc img)
  from checkDuplicate_store [of st ai now msg p loc img]
  consider "serve st r = st"
    | cid where "serve st r = addUserToComplaintFollowUp st now cid (formatPhoneNumber p)"
    using CheckDuplicate by auto
  then show ?thesis
  proof cases
    case 1
    with assms show ?thesis by simp
  next
    case 2
    show ?thesis
    proof (cases "doc_get (complaints st) cid")
      case None
      with 2 assms show ?thesis by (simp add: addUser_missing)
    next
      case (Some d)
      with 2 assms show ?thesis by (auto simp: addUser_complaint)
    qed
  qed
next
  case (RateMessage p m)
  with assms show ?thesis by simp
qed

lemma serve_percentage_bound:
  assumes inv: "\<forall>k c. doc_get (complaints st) k = Some c \<longrightarrow>
                      completionPercentage (workflow c) \<le> 60"
    and after: "doc_get (complaints (serve st r)) k = Some c'"
  shows "completionPercentage (workflow c') \<le> 60"
proof (cases "recreates r k")
  case True
  then obtain ai now d p img where r: "r = CreateDraft ai now k d p img"
    by (cases r) auto
  with after createDraft_percentage [of st ai now k d p img] show ?thesis
    by (auto simp: createDraft_complaint)
next
  case False
  show ?thesis
  proof (cases "doc_get (complaints st) k")
    case None
    have "doc_get (complaints (serve st r)) k = None"
    proof (cases r)
      case (CreateDraft ai now cid d p img)
      with None False show ?thesis by (simp add: createDraft_complaint)
    next
      case (Confirm geo now tid cid w)
      show ?thesis
      proof (cases "doc_get (complaints st) cid")
        case N: None
        with Confirm None show ?thesis by (simp add: confirmComplaint_NotFound)
      next
        case (Some d)
        from confirmComplaint_Some [OF Some, of geo now tid w]
        obtain st' where "confirmComplaint st geo now tid cid w = Inr (tid, st')"
          and "\<forall>k. k \<noteq> cid \<longrightarrow> doc_get (complaints st') k = doc_get (complaints st) k"
          by blast
        with Confirm None Some show ?thesis by (cases "k = cid") auto
      qed
    next
      case (Cancel now cid)
      show ?thesis
      proof (cases "doc_get (complaints st) cid")
        case N: None
        with Cancel None show ?thesis by (simp add: cancelComplaint_NotFound)
      next
        case (Some d)
        from cancelComplaint_Some [OF Some, of now]
        obtain st' where "cancelComplaint st now cid = Inr st'"
          and "\<forall>k. k \<noteq> cid \<longrightarrow> doc_get (complaints st') k = doc_get (complaints st) k"
          by blast
        with Cancel None Some show ?thesis by (cases "k = cid") auto
      qed
    next
      case (FollowUp now cid p)
      show ?thesis
      proof (cases "doc_get (complaints st) cid")
        case N: None
        with FollowUp None show ?thesis by (simp add: addUser_missing)
      next
        case (Some d)
        with FollowUp None show ?thesis by (auto simp: addUser_complaint)
      qed
    next
      case (CheckDuplicate ai now msg p loc img)
      from checkDuplicate_store [of st ai now msg p loc img]
      consider "serve st r = st"
        | cid where "serve st r = addUserToComplaintFollowUp st now cid (formatPhoneNumber p)"
        using CheckDuplicate by auto
      then show ?thesis
      proof cases
        case 1
        with None show ?thesis by simp
      next
        case 2
        show ?thesis
        proof (cases "doc_get (complaints st) cid")
          case N: None
          with 2 None show ?thesis by (simp add: addUser_missing)
        next
          case (Some d)
          with 2 None show ?thesis by (auto simp: addUser_complaint)
        qed
      qed
    next
      case (RateMessage p m)
      with None show ?thesis by simp
    qed
    with after show ?thesis by simp
  next
    case (Some c)
    from serve_keeps_complaint [OF Some False] after inv Some
    show ?thesis by auto
  qed
qed

lemma run_percentage_bound:
  assumes "\<forall>k c. doc_get (complaints st) k = Some c \<longrightarrow>
                      completionPercentage (workflow c) \<le> 60"
  shows "\<forall>k c. doc_get (complaints (foldl serve st rs)) k = Some c \<longrightarrow>
                      completionPercentage (workflow c) \<le> 60"
  using assms
proof (induction rs arbitrary: st)
  case Nil
  then show ?case by simp
next
  case (Cons r rs)
  have "\<forall>k c. doc_get (complaints (serve st r)) k = Some c \<longrightarrow>
                      completionPercentage (workflow c) \<le> 60"
    using serve_percentage_bound [OF Cons.prems] by blast
  from Cons.IH [OF this] show ?case by simp
qed

lemma percentage_after_create:
  "percentage_of (serve st (CreateDraft ai now k d p img)) k = Some 30"
  by (simp add: percentage_of_def createDraft_complaint createDraft_percentage)

lemma percentage_after_confirm:
  assumes "percentage_of st k = Some q"
  shows "percentage_of (serve st (Confirm geo now tid k w)) k = Some 60 \<and>
         map_option (\<lambda>t. (tk_complaintId t, completionPercentage (tk_workflow t)))
           (doc_get (tickets (serve st (Confirm geo now tid k w))) tid) = Some (k, 70)"
proof -
  from assms obtain c where c: "doc_get (complaints st) k = Some c"
    by (auto simp: percentage_of_def)
  from confirmComplaint_Some [OF c, of geo now tid w] show ?thesis
    by (auto simp: percentage_of_def)
qed

lemma percentage_after_cancel:
  assumes "percentage_of st k = Some q"
  shows "percentage_of (serve st (Cancel now k)) k = Some 0"
proof -
  from assms obtain c where c: "doc_get (complaints st) k = Some c"
    by (auto simp: percentage_of_def)
  from cancelComplaint_Some [OF c, of now] show ?thesis
    by (auto simp: percentage_of_def)
qed

text \<open>
  Claim C5, as the code has it. A complaint's workflow.completionPercentage is 30 when
  the draft is written, 60 after confirmComplaint and 0 after cancelComplaint; the value 70
  is the completionPercentage of the ticket's own workflow, written when the ticket record
  is created. In every store reached from one without complaints, a call that does not
  write a new draft under the complaint's id leaves the complaint's percentage where it is
  or raises it, unless the call cancels the complaint, and then the percentage is 0.
\<close>

theorem workflow_percentage_steps:
  assumes "complaints st0 = []" and "st = foldl serve st0 rs"
  shows "percentage_of (serve st (CreateDraft ai now k d p img)) k = Some 30 \<and>
         (\<forall>c. doc_get (complaints st) k = Some c \<longrightarrow>
            percentage_of (serve st (Confirm geo now tid k w)) k = Some 60 \<and>
            map_option (\<lambda>t. completionPercentage (tk_workflow t))
              (doc_get (tickets (serve st (Confirm geo now tid k w))) tid) = Some 70) \<and>
         (\<forall>c. doc_get (complaints st) k = Some c \<longrightarrow>
            percentage_of (serve st (Cancel now k)) k = Some 0) \<and>
         (\<forall>r q. percentage_of st k = Some q \<and> \<not> recreates r k \<longrightarrow>
            (\<exists>q'. percentage_of (serve st r) k = Some q' \<and>
                  (q \<le> q' \<or> (cancels r k \<and> q' = 0))))"
proof -
  have created: "percentage_of (serve st (CreateDraft ai now k d p img)) k = Some 30"
    by (simp add: percentage_of_def createDraft_complaint createDraft_percentage)
  have confirmed: "\<forall>c. doc_get (complaints st) k = Some c \<longrightarrow>
            percentage_of (serve st (Confirm geo now tid k w)) k = Some 60 \<and>
            map_option (\<lambda>t. completionPercentage (tk_workflow t))
              (doc_get (tickets (serve st (Confirm geo now tid k w))) tid) = Some 70"
  proof (intro allI impI)
    fix c assume c: "doc_get (complaints st) k = Some c"
    from confirmComplaint_Some [OF c, of geo now tid w]
    show "percentage_of (serve st (Confirm geo now tid k w)) k = Some 60 \<and>
          map_option (\<lambda>t. completionPercentage (tk_workflow t))
            (doc_get (tickets (serve st (Confirm geo now tid k w))) tid) = Some 70"
      by (auto simp: percentage_of_def)
  qed
  have cancelled: "\<forall>c. doc_get (complaints st) k = Some c \<longrightarrow>
            percentage_of (serve st (Cancel now k)) k = Some 0"
  proof (intro allI impI)
    fix c assume c: "doc_get (complaints st) k = Some c"
    from cancelComplaint_Some [OF c, of now]
    show "percentage_of (serve st (Cancel now k)) k = Some 0"
      by (auto simp: percentage_of_def)
  qed
  have step: "\<forall>r q. percentage_of st k = Some q \<and> \<not> recreates r k \<longrightarrow>
            (\<exists>q'. percentage_of (serve st r) k = Some q' \<and>
                  (q \<le> q' \<or> (cancels r k \<and> q' = 0)))"
  proof (intro allI impI)
    fix r q assume "percentage_of st k = Some q \<and> \<not> recreates r k"
    then obtain c where c: "doc_get (complaints st) k = Some c"
      and q: "q = completionPercentage (workflow c)" and nr: "\<not> recreates r k"
      by (auto simp: percentage_of_def)
    have "\<forall>k c. doc_get (complaints st0) k = Some c \<longrightarrow>
            completionPercentage (workflow c) \<le> 60"
      using assms(1) by (simp add: doc_get_def)
    from run_percentage_bound [OF this, of rs] c assms(2)
    have le: "q \<le> 60" unfolding q by blast
    from serve_keeps_complaint [OF c nr] le q
    show "\<exists>q'. percentage_of (serve st r) k = Some q' \<and> (q \<le> q' \<or> (cancels r k \<and> q' = 0))"
      by (auto simp: percentage_of_def)
  qed
  from created confirmed cancelled step show ?thesis by blast
qed

theorem workflow_percentage_steps_witness:
  "percentage_of
     (serve example_store
        (CreateDraft example_ai 5000 ''PCMC-C'' example_new_text ''9876543210'' None))
     ''PCMC-C'' = Some 30 \<and>
   percentage_of
     (serve example_store (Confirm example_geocode 5000 ''TICKET0C'' ''PCMC-A'' example_location))
     ''PCMC-A'' = Some 60 \<and>
   percentage_of (serve example_store (Cancel 5000 ''PCMC-A'')) ''PCMC-A'' = Some 0 \<and>
   (\<exists>q'. percentage_of (serve example_store (FollowUp 5000 ''PCMC-A'' ''9876543210''))
            ''PCMC-A'' = Some q' \<and> 60 \<le> q')"
proof -
  have start: "complaints empty_store = []"
    by (simp add: empty_store_def)
  have run: "example_store = foldl serve empty_store example_requests"
    by (simp add: example_store_def)
  note at_C = workflow_percentage_steps [OF start run, of example_ai 5000 "''PCMC-C''"
      example_new_text "''9876543210''" None example_geocode "''TICKET0C''" example_location]
  note at_A = workflow_percentage_steps [OF start run, of example_ai 5000 "''PCMC-A''"
      example_new_text "''9876543210''" None example_geocode "''TICKET0C''" example_location]
  have now_60: "percentage_of example_store ''PCMC-A'' = Some 60"
    by (simp add: percentage_of_def example_lookup example_complaint_A_def)
  have 1: "percentage_of
     (serve example_store
        (CreateDraft example_ai 5000 ''PCMC-C'' example_new_text ''9876543210'' None))
     ''PCMC-C'' = Some 30"
    using at_C by blast
  have 2: "percentage_of
     (serve example_store (Confirm example_geocode 5000 ''TICKET0C'' ''PCMC-A'' example_location))
     ''PCMC-A'' = Some 60"
    using at_A example_lookup(1) by blast
  have 3: "percentage_of (serve example_store (Cancel 5000 ''PCMC-A'')) ''PCMC-A'' = Some 0"
    using at_A example_lookup(1) by blast
  have "\<not> recreates (FollowUp 5000 ''PCMC-A'' ''9876543210'') ''PCMC-A''"
    and "\<not> cancels (FollowUp 5000 ''PCMC-A'' ''9876543210'') ''PCMC-A''"
    by simp_all
  with at_A now_60
  have 4: "\<exists>q'. percentage_of (serve example_store (FollowUp 5000 ''PCMC-A'' ''9876543210''))
            ''PCMC-A'' = Some q' \<and> 60 \<le> q'"
    by blast
  from 1 2 3 4 show ?thesis by blast
qed

text \<open>
  Claim C5 as stated has the complaint's percentage at 70 once the ticket exists, and one
  drop only. After the confirmation the ticket exists, with 70 in its own workflow, and
  the complaint stays at 60; confirming and cancelling the complaint once more gives
  30, 60, 0, 60, 0.
\<close>

theorem workflow_percentage_counterexample:
  "map (\<lambda>n. percentage_of (foldl serve empty_store (take n example_lifecycle)) ''PCMC-A'')
     [1, 2, 3, 4, 5] = [Some 30, Some 60, Some 0, Some 60, Some 0] \<and>
   map_option (\<lambda>t. (tk_complaintId t, completionPercentage (tk_workflow t)))
     (doc_get (tickets (foldl serve empty_store (take 2 example_lifecycle))) ''TICKET0A'') =
     Some (''PCMC-A'', 70)"
proof -
  let ?r1 = "CreateDraft example_ai 1000 ''PCMC-A'' example_text_A ''9000000001'' None"
  let ?r2 = "Confirm example_geocode 2000 ''TICKET0A'' ''PCMC-A'' example_location"
  let ?r3 = "Cancel 3000 ''PCMC-A''"
  let ?r4 = "Confirm example_geocode 4000 ''TICKET0C'' ''PCMC-A'' example_location"
  let ?r5 = "Cancel 5000 ''PCMC-A''"
  let ?s1 = "serve empty_store ?r1"
  let ?s2 = "serve ?s1 ?r2"
  let ?s3 = "serve ?s2 ?r3"
  let ?s4 = "serve ?s3 ?r4"
  let ?s5 = "serve ?s4 ?r5"
  have p1: "percentage_of ?s1 ''PCMC-A'' = Some 30"
    by (rule percentage_after_create)
  have p2: "percentage_of ?s2 ''PCMC-A'' = Some 60 \<and>
            map_option (\<lambda>t. (tk_complaintId t, completionPercentage (tk_workflow t)))
              (doc_get (tickets ?s2) ''TICKET0A'') = Some (''PCMC-A'', 70)"
    by (rule percentage_after_confirm [OF p1])
  have p3: "percentage_of ?s3 ''PCMC-A'' = Some 0"
    by (rule percentage_after_cancel [OF p2 [THEN conjunct1]])
  have p4: "percentage_of ?s4 ''PCMC-A'' = Some 60"
    by (rule percentage_after_confirm [OF p3, THEN conjunct1])
  have p5: "percentage_of ?s5 ''PCMC-A'' = Some 0"
    by (rule percentage_after_cancel [OF p4])
  show ?thesis
    using p1 p2 p3 p4 p5
    by (simp add: example_lifecycle_def)
qed

subsection \<open>The duplicate check\<close>

lemma scanCandidates_keepBest:
  "scanCandidates ai msg ph loc img docs acc = keepBest (scanned ai msg ph loc img docs) acc"
proof (induction docs arbitrary: acc)
  case Nil
  then show ?case by simp
next
  case (Cons d docs)
  obtain docId c where d: "d = (docId, c)" by (cases d)
  obtain best hi where acc: "acc = (best, hi)" by (cases acc)
  show ?case
    unfolding d acc using Cons.IH
    by (simp add: score_of_def split: sum.splits)
qed

lemma keepBest_inv:
  "keepBest bs (best, hi) = (best', hi') \<Longrightarrow>
   hi \<le> hi' \<and> (\<forall>b \<in> set bs. score_of b \<le> hi') \<and>
   ((best' = best \<and> hi' = hi) \<or>
    (\<exists>b \<in> set bs. best' = Some b \<and> score_of b = hi' \<and> hi < hi'))"
proof (induction bs arbitrary: best hi)
  case Nil
  then show ?case by simp
next
  case (Cons b bs)
  show ?case
  proof (cases "score_of b > hi")
    case True
    with Cons.prems have "keepBest bs (Some b, score_of b) = (best', hi')" by simp
    from Cons.IH [OF this] True show ?thesis by auto
  next
    case False
    with Cons.prems have "keepBest bs (best, hi) = (best', hi')" by simp
    from Cons.IH [OF this] False show ?thesis by auto
  qed
qed

lemma keepBest_Max:
  assumes "keepBest bs (None, 0) = (best', hi')"
  shows "hi' = Max (insert 0 (score_of ` set bs))"
proof -
  from keepBest_inv [OF assms]
  have ub: "\<forall>y \<in> insert 0 (score_of ` set bs). y \<le> hi'"
    and mem: "hi' \<in> insert 0 (score_of ` set bs)"
    by auto
  show ?thesis
    by (rule Max_eqI [symmetric]) (use ub mem in auto)
qed

lemma calculateDistance_same_point: "calculateDistance lat lon lat lon = 0"
  by (simp add: calculateDistance_def atan2_def)

lemma atan2_sin_cos:
  assumes "0 \<le> x" "x < pi / 2"
  shows "atan2 (sqrt (sin x * sin x)) (sqrt (1 - sin x * sin x)) = x"
proof -
  have s: "0 \<le> sin x" using assms by (intro sin_ge_zero) (auto simp: field_simps)
  have c: "0 < cos x" using assms by (intro cos_gt_zero_pi) auto
  have "1 - sin x * sin x = cos x * cos x"
    using sin_cos_squared_add [of x] by (simp add: power2_eq_square algebra_simps)
  then have c2: "sqrt (1 - sin x * sin x) = cos x"
    using c by simp
  have s2: "sqrt (sin x * sin x) = sin x"
    using s by simp
  have "arctan (sin x / cos x) = x"
    using arctan_tan [of x] assms by (simp add: tan_def)
  then show ?thesis
    unfolding c2 s2 atan2_def using c by simp
qed

lemma calculateDistance_north:
  assumes "lat1 \<le> lat2" "lat2 - lat1 < 180"
  shows "calculateDistance lat1 lon lat2 lon = 6371 * ((lat2 - lat1) * pi / 180)"
proof -
  define x where "x = (lat2 - lat1) * pi / 180 / 2"
  have x0: "0 \<le> x" using assms by (simp add: x_def)
  have "(lat2 - lat1) * pi < 180 * pi" using assms by simp
  then have x1: "x < pi / 2" by (simp add: x_def)
  have "calculateDistance lat1 lon lat2 lon =
          6371 * (2 * atan2 (sqrt (sin x * sin x)) (sqrt (1 - sin x * sin x)))"
    by (simp add: calculateDistance_def Let_def x_def)
  also have "\<dots> = 6371 * (2 * x)"
    by (simp only: atan2_sin_cos [OF x0 x1])
  also have "\<dots> = 6371 * ((lat2 - lat1) * pi / 180)"
    by (simp add: x_def)
  finally show ?thesis .
qed

lemma one_degree: "calculateDistance 18.6 73.8 19.6 73.8 > 1"
proof -
  have "calculateDistance 18.6 73.8 19.6 73.8 = 6371 * ((19.6 - 18.6) * pi / 180)"
    by (rule calculateDistance_north) simp_all
  also have "\<dots> = 6371 * pi / 180" by simp
  finally show ?thesis using pi_ge_two by simp
qed


lemma example_location_A:
  "analyzeLocationProximity (Some example_location) (location example_complaint_A) =
     Inr \<lparr> score = 0.95, reasoning = ''Very close proximity'', distance = Some 0,
           withinProximity = True, addressSimilarity = Some 0 \<rparr>"
  by (simp add: analyzeLocationProximity_def try_catch_def example_complaint_A_def
      example_location_def calculateDistance_same_point calculateAddressSimilarity_def
      str_or_def Let_def)

lemma example_location_B:
  "analyzeLocationProximity (Some example_location) (location example_complaint_B) =
     Inr \<lparr> score = 0, reasoning = ''Different areas'',
           distance = Some (calculateDistance 18.6 73.8 19.6 73.8),
           withinProximity = False, addressSimilarity = Some 0 \<rparr>"
  using one_degree
  by (simp add: analyzeLocationProximity_def try_catch_def example_complaint_B_def
      example_location_def example_far_location_def calculateAddressSimilarity_def
      str_or_def Let_def)

lemma example_image_B:
  "analyzeImageSimilarity example_classifier (Some ''new.jpg'') (imageUrl example_complaint_B) =
     Inr \<lparr> score = 1, reasoning = ''same place'', sameLocation = Some True,
           sameProblem = Some True, visualMatch = True \<rparr>"
  by (simp add: analyzeImageSimilarity_def try_catch_def bindE_def example_complaint_B_def
      example_classifier_def missing_url_def num_or_def str_or_def bool_or_false_def)

lemma example_query:
  "queryCandidates example_store 5000 =
     [(''PCMC-B'', example_complaint_B), (''PCMC-A'', example_complaint_A)]"
  by (simp add: queryCandidates_def example_complaints example_complaint_A_def
      example_complaint_B_def)

lemma example_not_skipped:
  "\<not> skipsCandidate example_ai example_new_text ''919876543210'' loc example_complaint_A"
  "\<not> skipsCandidate example_ai example_new_text ''919876543210'' loc example_complaint_B"
  by (simp_all add: skipsCandidate_def example_ai_categories example_complaint_A_def
      example_complaint_B_def)

lemma example_check_A_value:
  "ai_checkComplaintSimilarity example_ai example_new_text (description example_complaint_A)
     (Some example_location) (location example_complaint_A) img (imageUrl example_complaint_A) =
   Inr \<lparr> sim_score = 0.555, isDuplicate = True,
         sim_breakdown = Some \<lparr> bd_semantic = example_semantic 0.6,
                                 bd_location = example_location_near,
                                 bd_image = example_image_missing,
                                 bd_temporal = example_temporal,
                                 bd_type = example_type_analysis \<rparr>,
         confidence = 0.555 \<rparr>"
proof -
  have s: "analyzeSemanticSimilarity example_classifier example_new_text
             (description example_complaint_A) = Inr (example_semantic 0.6)"
    using example_semantic_A by (simp add: example_complaint_A_def example_semantic_def)
  have l: "analyzeLocationProximity (Some example_location) (location example_complaint_A) =
             Inr example_location_near"
    using example_location_A by (simp add: example_location_near_def)
  have i: "analyzeImageSimilarity example_classifier img (imageUrl example_complaint_A) =
             Inr example_image_missing"
    using image_missing [of img "imageUrl example_complaint_A" example_classifier]
    by (simp add: example_complaint_A_def missing_url_def example_image_missing_def)
  have t: "analyzeTemporalRelevance 5000 Undefined = Inr example_temporal"
    using temporal_undefined [of 5000] by (simp add: example_temporal_def)
  have c: "analyzeComplaintType example_classifier example_new_text
             (description example_complaint_A) = Inr example_type_analysis"
    using example_type by (simp add: example_type_analysis_def)
  show ?thesis
    unfolding example_ai_def aiService_def
    by (simp add: checkComplaintSimilarity_unfold [OF s l i t c] finalScore_of_def
        similarity_weights_def decideDuplicateStatus_iff calculateConfidence_def
        example_semantic_def example_location_near_def example_image_missing_def example_temporal_def
        example_type_analysis_def)
qed

lemma example_check_A:
  "ai_checkComplaintSimilarity example_ai example_new_text (description example_complaint_A)
     (Some example_location) (location example_complaint_A) img (imageUrl example_complaint_A) =
   Inr example_similarity_A"
  unfolding example_similarity_A_def by (rule example_check_A_value)

lemma example_check_B_parts:
  "analyzeSemanticSimilarity example_classifier example_new_text
     (description example_complaint_B) = Inr (example_semantic 1)"
  "analyzeLocationProximity (Some example_location) (location example_complaint_B) =
     Inr example_far"
  "analyzeTemporalRelevance 5000 Undefined = Inr example_temporal"
  "analyzeComplaintType example_classifier example_new_text
     (description example_complaint_B) = Inr example_type_analysis"
  using example_semantic_B example_location_B temporal_undefined [of 5000] example_type
  by (simp_all add: example_complaint_B_def example_semantic_def example_far_def
      example_temporal_def example_type_analysis_def)

lemma example_check_B_with_image:
  "ai_checkComplaintSimilarity example_ai example_new_text (description example_complaint_B)
     (Some example_location) (location example_complaint_B) (Some ''new.jpg'')
     (imageUrl example_complaint_B) =
   Inr (example_similarity_B example_image_match 0.61 0.71)"
proof -
  have i: "analyzeImageSimilarity example_classifier (Some ''new.jpg'')
             (imageUrl example_complaint_B) = Inr example_image_match"
    using example_image_B by (simp add: example_image_match_def)
  show ?thesis
    unfolding example_ai_def aiService_def
    by (simp add: checkComplaintSimilarity_unfold
          [OF example_check_B_parts(1) example_check_B_parts(2) i example_check_B_parts(3)
              example_check_B_parts(4)]
        finalScore_of_def similarity_weights_def decideDuplicateStatus_iff
        calculateConfidence_def example_similarity_B_def example_semantic_def example_far_def
        example_image_match_def example_temporal_def example_type_analysis_def)
qed

lemma example_check_B_without_image:
  "ai_checkComplaintSimilarity example_ai example_new_text (description example_complaint_B)
     (Some example_location) (location example_complaint_B) None
     (imageUrl example_complaint_B) =
   Inr (example_similarity_B example_image_missing 0.41 0.41)"
proof -
  have i: "analyzeImageSimilarity example_classifier None (imageUrl example_complaint_B) =
             Inr example_image_missing"
    using image_missing [of None "imageUrl example_complaint_B" example_classifier]
    by (simp add: missing_url_def example_image_missing_def)
  show ?thesis
    unfolding example_ai_def aiService_def
    by (simp add: checkComplaintSimilarity_unfold
          [OF example_check_B_parts(1) example_check_B_parts(2) i example_check_B_parts(3)
              example_check_B_parts(4)]
        finalScore_of_def similarity_weights_def decideDuplicateStatus_iff
        calculateConfidence_def example_similarity_B_def example_semantic_def example_far_def
        example_image_missing_def example_temporal_def example_type_analysis_def)
qed

lemma example_scanned_with_image:
  "scanned example_ai example_new_text ''919876543210'' (Some example_location)
     (Some ''new.jpg'') (queryCandidates example_store 5000) =
   [\<lparr> bm_complaint = example_complaint_B,
       bm_similarity = example_similarity_B example_image_match 0.61 0.71,
       bm_docId = ''PCMC-B'' \<rparr>,
    \<lparr> bm_complaint = example_complaint_A, bm_similarity = example_similarity_A,
       bm_docId = ''PCMC-A'' \<rparr>]"
  by (simp add: example_query example_not_skipped example_check_A example_check_B_with_image)

lemma example_scanned_without_image:
  "scanned example_ai example_new_text ''919876543210'' (Some example_location)
     None (queryCandidates example_store 5000) =
   [\<lparr> bm_complaint = example_complaint_B,
       bm_similarity = example_similarity_B example_image_missing 0.41 0.41,
       bm_docId = ''PCMC-B'' \<rparr>,
    \<lparr> bm_complaint = example_complaint_A, bm_similarity = example_similarity_A,
       bm_docId = ''PCMC-A'' \<rparr>]"
  by (simp add: example_query example_not_skipped example_check_A example_check_B_without_image)

lemma keepBest_append: "keepBest (xs @ ys) acc = keepBest ys (keepBest xs acc)"
proof (induction xs arbitrary: acc)
  case Nil
  then show ?case by simp
next
  case (Cons x xs)
  obtain best hi where "acc = (best, hi)" by (cases acc)
  with Cons show ?case by simp
qed

lemma keepBest_below:
  assumes "\<forall>b \<in> set bs. score_of b \<le> hi"
  shows "keepBest bs (best, hi) = (best, hi)"
  using assms by (induction bs) auto

lemma keepBest_first_highest:
  assumes "first_highest cs pre b post"
  shows "keepBest cs (None, 0) = (Some b, score_of b)"
proof -
  from assms have cs: "cs = pre @ b # post" and pos: "0 < score_of b"
    and pre: "\<forall>b' \<in> set pre. score_of b' < score_of b"
    and post: "\<forall>b' \<in> set post. score_of b' \<le> score_of b"
    by (auto simp: first_highest_def)
  obtain best1 hi1 where k1: "keepBest pre (None, 0) = (best1, hi1)"
    by (cases "keepBest pre (None, 0)")
  from keepBest_inv [OF k1] pre pos have "hi1 < score_of b" by auto
  then have "keepBest (b # post) (best1, hi1) = keepBest post (Some b, score_of b)"
    by simp
  also have "\<dots> = (Some b, score_of b)"
    by (rule keepBest_below [OF post])
  finally show ?thesis
    unfolding cs keepBest_append k1 .
qed

lemma first_highest_exists:
  "(\<forall>b \<in> set cs. score_of b \<le> 0) \<or> (\<exists>pre b post. first_highest cs pre b post)"
proof (induction cs rule: rev_induct)
  case Nil
  then show ?case by simp
next
  case (snoc x cs)
  from snoc.IH show ?case
  proof
    assume low: "\<forall>b \<in> set cs. score_of b \<le> 0"
    show ?thesis
    proof (cases "score_of x \<le> 0")
      case True
      with low show ?thesis by simp
    next
      case False
      with low have "first_highest (cs @ [x]) cs x []"
        by (auto simp: first_highest_def)
      then show ?thesis by blast
    qed
  next
    assume "\<exists>pre b post. first_highest cs pre b post"
    then obtain pre b post where f: "first_highest cs pre b post" by blast
    show ?thesis
    proof (cases "score_of x \<le> score_of b")
      case True
      with f have "first_highest (cs @ [x]) pre b (post @ [x])"
        by (auto simp: first_highest_def)
      then show ?thesis by blast
    next
      case False
      with f have "first_highest (cs @ [x]) cs x []"
        by (fastforce simp: first_highest_def)
      then show ?thesis by blast
    qed
  qed
qed

lemma first_highest_Max:
  assumes "first_highest cs pre b post"
  shows "score_of b = Max (insert 0 (score_of ` set cs))"
proof -
  from assms have "\<forall>y \<in> insert 0 (score_of ` set cs). y \<le> score_of b"
    and "score_of b \<in> insert 0 (score_of ` set cs)"
    by (auto simp: first_highest_def less_imp_le)
  then show ?thesis
    by (intro Max_eqI [symmetric]) auto
qed

lemma scanned_nonempty:
  "scanned ai msg ph loc img docs \<noteq> [] \<Longrightarrow> docs \<noteq> []"
  by (cases docs) auto

lemma example_all_skipped:
  "scanned (aiService failing_classifier 5000) example_new_text ''919876543210'' None None
     (queryCandidates example_store 5000) = []"
  by (simp add: example_query skipsCandidate_def aiService_def categorizeDepartment_def
      failing_classifier_def try_catch_def bindE_def example_complaint_A_def
      example_complaint_B_def)

text \<open>
  Claim C2, as the code has it. On an empty pool the check returns not-duplicate at once.
  Otherwise it keeps one candidate: the first scanned candidate that reaches the highest
  similarity score of the pool, when that score is above 0. If the engine's verdict on
  that candidate is duplicate, the check returns the duplicate result for it and adds the
  reporter to that complaint's follow-up; if not, it returns a not-duplicate result that
  carries that candidate's score, the highest observed, and leaves the store as it is.
  When no scanned candidate scores above 0 it returns not-duplicate with the score 0. One
  of the two cases always holds.
\<close>

theorem checkDuplicateComplaint_best_candidate:
  "(queryCandidates st now = [] \<longrightarrow>
      checkDuplicateComplaint st ai now msg p loc img = (NoCandidates, st)) \<and>
   (queryCandidates st now \<noteq> [] \<and>
    (\<forall>b \<in> set (scanned ai msg (formatPhoneNumber p) loc img (queryCandidates st now)).
       score_of b \<le> 0) \<longrightarrow>
      Max (insert 0 (score_of `
        set (scanned ai msg (formatPhoneNumber p) loc img (queryCandidates st now)))) = 0 \<and>
      checkDuplicateComplaint st ai now msg p loc img =
        (NotDuplicate 0 (length (queryCandidates st now)), st)) \<and>
   (\<forall>pre b post.
      first_highest (scanned ai msg (formatPhoneNumber p) loc img (queryCandidates st now))
        pre b post \<longrightarrow>
      score_of b =
        Max (insert 0 (score_of `
          set (scanned ai msg (formatPhoneNumber p) loc img (queryCandidates st now)))) \<and>
      checkDuplicateComplaint st ai now msg p loc img =
        (if isDuplicate (bm_similarity b)
         then (DuplicateFound (duplicate_info_of b),
               addUserToComplaintFollowUp st now (bm_docId b) (formatPhoneNumber p))
         else (NotDuplicate (score_of b) (length (queryCandidates st now)), st))) \<and>
   ((\<forall>b \<in> set (scanned ai msg (formatPhoneNumber p) loc img (queryCandidates st now)).
       score_of b \<le> 0) \<or>
    (\<exists>pre b post.
       first_highest (scanned ai msg (formatPhoneNumber p) loc img (queryCandidates st now))
         pre b post))"
proof -
  let ?cs = "scanned ai msg (formatPhoneNumber p) loc img (queryCandidates st now)"
  have empty: "queryCandidates st now = [] \<longrightarrow>
      checkDuplicateComplaint st ai now msg p loc img = (NoCandidates, st)"
    by (simp add: checkDuplicateComplaint_def Let_def)
  have low: "queryCandidates st now \<noteq> [] \<and> (\<forall>b \<in> set ?cs. score_of b \<le> 0) \<longrightarrow>
      Max (insert 0 (score_of ` set ?cs)) = 0 \<and>
      checkDuplicateComplaint st ai now msg p loc img =
        (NotDuplicate 0 (length (queryCandidates st now)), st)"
  proof (intro impI, elim conjE)
    assume ne: "queryCandidates st now \<noteq> []" and le: "\<forall>b \<in> set ?cs. score_of b \<le> 0"
    have k: "keepBest ?cs (None, 0) = (None, 0)"
      by (rule keepBest_below [OF le])
    have m: "Max (insert 0 (score_of ` set ?cs)) = 0"
      using keepBest_Max [OF k] by simp
    have "checkDuplicateComplaint st ai now msg p loc img =
            (NotDuplicate 0 (length (queryCandidates st now)), st)"
      using ne k by (simp add: checkDuplicateComplaint_def Let_def scanCandidates_keepBest)
    with m show "Max (insert 0 (score_of ` set ?cs)) = 0 \<and>
      checkDuplicateComplaint st ai now msg p loc img =
        (NotDuplicate 0 (length (queryCandidates st now)), st)"
      by (rule conjI)
  qed
  have high: "\<forall>pre b post. first_highest ?cs pre b post \<longrightarrow>
      score_of b = Max (insert 0 (score_of ` set ?cs)) \<and>
      checkDuplicateComplaint st ai now msg p loc img =
        (if isDuplicate (bm_similarity b)
         then (DuplicateFound (duplicate_info_of b),
               addUserToComplaintFollowUp st now (bm_docId b) (formatPhoneNumber p))
         else (NotDuplicate (score_of b) (length (queryCandidates st now)), st))"
  proof (intro allI impI)
    fix pre b post assume f: "first_highest ?cs pre b post"
    then have "?cs \<noteq> []" by (auto simp: first_highest_def)
    then have ne: "queryCandidates st now \<noteq> []" by (rule scanned_nonempty)
    have k: "keepBest ?cs (None, 0) = (Some b, score_of b)"
      by (rule keepBest_first_highest [OF f])
    have "checkDuplicateComplaint st ai now msg p loc img =
        (if isDuplicate (bm_similarity b)
         then (DuplicateFound (duplicate_info_of b),
               addUserToComplaintFollowUp st now (bm_docId b) (formatPhoneNumber p))
         else (NotDuplicate (score_of b) (length (queryCandidates st now)), st))"
      using ne k
      by (simp add: checkDuplicateComplaint_def Let_def scanCandidates_keepBest
          duplicate_info_of_def)
    with first_highest_Max [OF f]
    show "score_of b = Max (insert 0 (score_of ` set ?cs)) \<and>
      checkDuplicateComplaint st ai now msg p loc img =
        (if isDuplicate (bm_similarity b)
         then (DuplicateFound (duplicate_info_of b),
               addUserToComplaintFollowUp st now (bm_docId b) (formatPhoneNumber p))
         else (NotDuplicate (score_of b) (length (queryCandidates st now)), st))"
      by (rule conjI)
  qed
  have cases: "(\<forall>b \<in> set ?cs. score_of b \<le> 0) \<or> (\<exists>pre b post. first_highest ?cs pre b post)"
    by (rule first_highest_exists)
  show ?thesis
    by (intro conjI) (fact empty low high cases)+
qed

theorem checkDuplicateComplaint_best_candidate_witness:
  "checkDuplicateComplaint example_store example_ai 5000 example_new_text ''9876543210''
     (Some example_location) None =
     (DuplicateFound
        (duplicate_info_of
           \<lparr> bm_complaint = example_complaint_A, bm_similarity = example_similarity_A,
             bm_docId = ''PCMC-A'' \<rparr>),
      addUserToComplaintFollowUp example_store 5000 ''PCMC-A'' ''919876543210'') \<and>
   checkDuplicateComplaint example_store example_ai 5000 example_new_text ''9876543210''
     (Some example_location) (Some ''new.jpg'') = (NotDuplicate 0.61 2, example_store) \<and>
   checkDuplicateComplaint example_store (aiService failing_classifier 5000) 5000
     example_new_text ''9876543210'' None None = (NotDuplicate 0 2, example_store)"
proof -
  let ?A = "\<lparr> bm_complaint = example_complaint_A, bm_similarity = example_similarity_A,
             bm_docId = ''PCMC-A'' \<rparr>"
  let ?B0 = "\<lparr> bm_complaint = example_complaint_B,
              bm_similarity = example_similarity_B example_image_missing 0.41 0.41,
              bm_docId = ''PCMC-B'' \<rparr>"
  let ?B1 = "\<lparr> bm_complaint = example_complaint_B,
              bm_similarity = example_similarity_B example_image_match 0.61 0.71,
              bm_docId = ''PCMC-B'' \<rparr>"
  note plain = checkDuplicateComplaint_best_candidate
    [of example_store 5000 example_ai example_new_text "''9876543210''"
        "Some example_location" None]
  note photo = checkDuplicateComplaint_best_candidate
    [of example_store 5000 example_ai example_new_text "''9876543210''"
        "Some example_location" "Some ''new.jpg''"]
  note failing = checkDuplicateComplaint_best_candidate
    [of example_store 5000 "aiService failing_classifier 5000" example_new_text
        "''9876543210''" None None]
  have f0: "first_highest
              (scanned example_ai example_new_text (formatPhoneNumber ''9876543210'')
                 (Some example_location) None (queryCandidates example_store 5000))
              [?B0] ?A []"
    by (simp add: first_highest_def example_phones example_scanned_without_image score_of_def
        example_similarity_A_def example_similarity_B_def)
  have f1: "first_highest
              (scanned example_ai example_new_text (formatPhoneNumber ''9876543210'')
                 (Some example_location) (Some ''new.jpg'') (queryCandidates example_store 5000))
              [] ?B1 [?A]"
    by (simp add: first_highest_def example_phones example_scanned_with_image score_of_def
        example_similarity_A_def example_similarity_B_def)
  have pool: "queryCandidates example_store 5000 \<noteq> []"
    and size: "length (queryCandidates example_store 5000) = 2"
    by (simp_all add: example_query)
  have none: "\<forall>b \<in> set (scanned (aiService failing_classifier 5000) example_new_text
                            (formatPhoneNumber ''9876543210'') None None
                            (queryCandidates example_store 5000)). score_of b \<le> 0"
    by (simp add: example_phones example_all_skipped)
  have "checkDuplicateComplaint example_store example_ai 5000 example_new_text ''9876543210''
     (Some example_location) None =
     (if isDuplicate (bm_similarity ?A)
      then (DuplicateFound (duplicate_info_of ?A),
            addUserToComplaintFollowUp example_store 5000 (bm_docId ?A)
              (formatPhoneNumber ''9876543210''))
      else (NotDuplicate (score_of ?A) (length (queryCandidates example_store 5000)),
            example_store))"
    using plain f0 by blast
  then have 1: "checkDuplicateComplaint example_store example_ai 5000 example_new_text
     ''9876543210'' (Some example_location) None =
     (DuplicateFound (duplicate_info_of ?A),
      addUserToComplaintFollowUp example_store 5000 ''PCMC-A'' ''919876543210'')"
    by (simp add: example_similarity_A_def example_phones)
  have "checkDuplicateComplaint example_store example_ai 5000 example_new_text ''9876543210''
     (Some example_location) (Some ''new.jpg'') =
     (if isDuplicate (bm_similarity ?B1)
      then (DuplicateFound (duplicate_info_of ?B1),
            addUserToComplaintFollowUp example_store 5000 (bm_docId ?B1)
              (formatPhoneNumber ''9876543210''))
      else (NotDuplicate (score_of ?B1) (length (queryCandidates example_store 5000)),
            example_store))"
    using photo f1 by blast
  then have 2: "checkDuplicateComplaint example_store example_ai 5000 example_new_text
     ''9876543210'' (Some example_location) (Some ''new.jpg'') =
     (NotDuplicate 0.61 2, example_store)"
    by (simp add: example_similarity_B_def score_of_def size)
  have "checkDuplicateComplaint example_store (aiService failing_classifier 5000) 5000
     example_new_text ''9876543210'' None None =
     (NotDuplicate 0 (length (queryCandidates example_store 5000)), example_store)"
    using failing pool none by blast
  then have 3: "checkDuplicateComplaint example_store (aiService failing_classifier 5000) 5000
     example_new_text ''9876543210'' None None = (NotDuplicate 0 2, example_store)"
    by (simp add: size)
  from 1 2 3 show ?thesis by blast
qed

text \<open>
  Claim C2 as stated returns the best of the candidates with a duplicate verdict. In the
  example store the complaint PCMC-A, at the reporter's position, is a duplicate by the
  location rule with score 0.555, and PCMC-B, 111 km away with a matching text and a matching
  photo, scores 0.61 and is no duplicate: the check returns not-duplicate with 0.61.
\<close>

theorem highest_score_not_duplicate_counterexample:
  "map (\<lambda>b. (bm_docId b, score_of b, isDuplicate (bm_similarity b)))
     (scanned example_ai example_new_text (formatPhoneNumber ''9876543210'')
        (Some example_location) (Some ''new.jpg'') (queryCandidates example_store 5000)) =
     [(''PCMC-B'', 0.61, False), (''PCMC-A'', 0.555, True)] \<and>
   fst (checkDuplicateComplaint example_store example_ai 5000 example_new_text ''9876543210''
          (Some example_location) (Some ''new.jpg'')) = NotDuplicate 0.61 2"
proof -
  have 1: "map (\<lambda>b. (bm_docId b, score_of b, isDuplicate (bm_similarity b)))
     (scanned example_ai example_new_text (formatPhoneNumber ''9876543210'')
        (Some example_location) (Some ''new.jpg'') (queryCandidates example_store 5000)) =
     [(''PCMC-B'', 0.61, False), (''PCMC-A'', 0.555, True)]"
    by (simp add: example_phones example_scanned_with_image score_of_def
        example_similarity_A_def example_similarity_B_def)
  have 2: "fst (checkDuplicateComplaint example_store example_ai 5000 example_new_text
                  ''9876543210'' (Some example_location) (Some ''new.jpg'')) =
           NotDuplicate 0.61 2"
    unfolding checkDuplicateComplaint_def Let_def scanCandidates_keepBest example_phones
      example_scanned_with_image
    by (simp add: example_query score_of_def example_similarity_A_def
        example_similarity_B_def)
  from 1 2 show ?thesis by (rule conjI)
qed

end
